(* ===== verification/Prelude.thy ===== *)
theory Prelude
  imports Main
begin

text \<open>
  Shared vocabulary of the LibraryRecommendation development: the collections of
  facts the component theories add to, the type names of the model, and the generic
  list lemma behind \<open>str.strip\<close> on strings without surrounding whitespace.
\<close>

named_theorems view_defs
  "definitions of the Flask views, unfolded together when a request is traced through them"

named_theorems inv_intros
  "rules that establish the database invariant after one operation"

type_synonym rowid = int
  \<comment> \<open>SQLite's 64-bit \<open>INTEGER PRIMARY KEY\<close>, an alias of the rowid\<close>

type_synonym formdata = "(string \<times> string) list"
  \<comment> \<open>werkzeug's \<open>MultiDict\<close> of a POST body: keys in order, duplicates kept\<close>

subsection \<open>Lists\<close>

lemma dropWhile_all_not: "\<forall>x\<in>set xs. \<not> P x \<Longrightarrow> dropWhile P xs = xs"
  by (induction xs) auto

end
