(* ===== verification/PyStr.thy ===== *)
theory PyStr
  imports Prelude
begin

text \<open>
  The Python string operations the forms of \<open>src/app.py\<close> apply to posted values:
  \<open>str.strip()\<close> (in \<open>DataRequired\<close>), \<open>int(s)\<close> (the \<open>coerce=int\<close> of the
  \<open>year\<close> and \<open>book\<close> select fields) and \<open>str(n)\<close> (how an integer choice is
  rendered into the page and posted back). A Python \<open>str\<close> is modelled as a list of
  code points of the Latin-1 range, one \<open>char\<close> each.
\<close>

subsection \<open>Whitespace and \<open>str.strip\<close>\<close>

text \<open>\<open>str.isspace\<close> on Latin-1: TAB..CR, the separators 0x1C..0x1F, space, NEL, NBSP.\<close>

definition py_isspace :: "char \<Rightarrow> bool" where
  "py_isspace c =
     (let n = (of_char c :: nat)
      in (9 \<le> n \<and> n \<le> 13) \<or> (28 \<le> n \<and> n \<le> 32) \<or> n = 133 \<or> n = 160)"

definition py_strip :: "string \<Rightarrow> string" where
  "py_strip s = rev (dropWhile py_isspace (rev (dropWhile py_isspace s)))"

subsection \<open>Decimal digits\<close>

definition py_isdigit :: "char \<Rightarrow> bool" where
  "py_isdigit c = (let n = (of_char c :: nat) in 48 \<le> n \<and> n \<le> 57)"

definition digit_value :: "char \<Rightarrow> nat" where
  "digit_value c = of_char c - 48"

definition digit_char :: "nat \<Rightarrow> char" where
  "digit_char d = ''0123456789'' ! d"

text \<open>Value of a digit sequence, most significant first.\<close>

definition digits_val :: "nat list \<Rightarrow> nat" where
  "digits_val ds = foldl (\<lambda>a d. 10 * a + d) 0 ds"

text \<open>
  The tail of a literal after its first digit: digits, each optionally preceded by
  one underscore (\<open>1_000\<close>); a doubled or trailing underscore is an error.
\<close>

fun us_digits :: "string \<Rightarrow> nat list option" where
  "us_digits [] = Some []"
| "us_digits (c # cs) =
     (if py_isdigit c then map_option (Cons (digit_value c)) (us_digits cs)
      else if c = CHR ''_'' then
        (case cs of
           [] \<Rightarrow> None
         | d # ds \<Rightarrow>
             if py_isdigit d then map_option (Cons (digit_value d)) (us_digits ds) else None)
      else None)"

definition py_digits :: "string \<Rightarrow> nat list option" where
  "py_digits s =
     (case s of
        [] \<Rightarrow> None
      | c # cs \<Rightarrow> if py_isdigit c then map_option (Cons (digit_value c)) (us_digits cs) else None)"

text \<open>CPython's \<open>sys.int_info.default_max_str_digits\<close> (3.11 and later).\<close>

definition int_max_str_digits :: nat where
  "int_max_str_digits = 4300"

definition dec_value :: "string \<Rightarrow> nat option" where
  "dec_value s =
     (case py_digits s of
        None \<Rightarrow> None
      | Some ds \<Rightarrow> if int_max_str_digits < length ds then None else Some (digits_val ds))"

subsection \<open>\<open>int(s)\<close>\<close>

text \<open>
  \<open>int(s)\<close> with base 10: surrounding whitespace is skipped, one optional sign, then a
  digit literal; anything else raises \<open>ValueError\<close>, modelled as \<open>None\<close>.
\<close>

fun signed_literal :: "string \<Rightarrow> int option" where
  "signed_literal [] = None"
| "signed_literal (c # r) =
     (if c = CHR ''-'' then map_option (\<lambda>n. - int n) (dec_value r)
      else if c = CHR ''+'' then map_option int (dec_value r)
      else map_option int (dec_value (c # r)))"

definition py_int :: "string \<Rightarrow> int option" where
  "py_int s = signed_literal (py_strip s)"

subsection \<open>\<open>str(n)\<close>\<close>

fun dec_digits :: "nat \<Rightarrow> nat list" where
  "dec_digits n = (if n < 10 then [n] else dec_digits (n div 10) @ [n mod 10])"

declare dec_digits.simps [simp del]

definition dec_string :: "nat \<Rightarrow> string" where
  "dec_string n = map digit_char (dec_digits n)"

definition py_str_int :: "int \<Rightarrow> string" where
  "py_str_int i = (if i < 0 then CHR ''-'' # dec_string (nat (- i)) else dec_string (nat i))"

subsection \<open>Lemmas\<close>

text \<open>The equations that evaluate \<open>int(s)\<close> on a literal with the simplifier.\<close>

lemmas py_int_eval = py_int_def py_strip_def py_isspace_def dec_value_def py_digits_def
  py_isdigit_def digit_value_def digits_val_def int_max_str_digits_def

lemma digit_char_props:
  assumes "d < 10"
  shows "py_isdigit (digit_char d)" and "digit_value (digit_char d) = d"
    and "\<not> py_isspace (digit_char d)"
proof -
  have "d \<in> {0,1,2,3,4,5,6,7,8,9}" using assms by auto
  then have "py_isdigit (digit_char d) \<and> digit_value (digit_char d) = d
      \<and> \<not> py_isspace (digit_char d)"
    by (auto simp: digit_char_def py_isdigit_def digit_value_def py_isspace_def)
  then show "py_isdigit (digit_char d)" and "digit_value (digit_char d) = d"
    and "\<not> py_isspace (digit_char d)" by auto
qed

lemma digit_char_not_sign:
  "d < 10 \<Longrightarrow> digit_char d \<noteq> CHR ''-'' \<and> digit_char d \<noteq> CHR ''+''"
  using digit_char_props(1) [of d] by (auto simp: py_isdigit_def)

lemma dec_digits_small: "x \<in> set (dec_digits n) \<Longrightarrow> x < 10"
proof (induction n rule: dec_digits.induct)
  case (1 n)
  then show ?case
    by (cases "n < 10") (auto simp: dec_digits.simps [of n])
qed

text \<open>Conditional unfoldings, safe for the simplifier on symbolic arguments.\<close>

lemma dec_digits_lt10: "n < 10 \<Longrightarrow> dec_digits n = [n]"
  by (simp add: dec_digits.simps [of n])

lemma dec_digits_ge10: "10 \<le> n \<Longrightarrow> dec_digits n = dec_digits (n div 10) @ [n mod 10]"
  by (simp add: dec_digits.simps [of n])

lemma dec_digits_nonempty: "dec_digits n \<noteq> []"
  by (subst dec_digits.simps) simp

lemma digits_val_snoc: "digits_val (ds @ [d]) = 10 * digits_val ds + d"
  by (simp add: digits_val_def)

lemma digits_val_dec_digits: "digits_val (dec_digits n) = n"
proof (induction n rule: dec_digits.induct)
  case (1 n)
  show ?case
  proof (cases "n < 10")
    case True
    then show ?thesis by (simp add: dec_digits.simps [of n] digits_val_def)
  next
    case False
    with "1.IH" show ?thesis
      by (simp add: dec_digits.simps [of n] digits_val_snoc)
  qed
qed

lemma us_digits_map_digit_char:
  "\<forall>d\<in>set ds. d < 10 \<Longrightarrow> us_digits (map digit_char ds) = Some ds"
  by (induction ds) (simp_all add: digit_char_props)

lemma py_digits_dec_string: "py_digits (dec_string n) = Some (dec_digits n)"
proof (cases "dec_digits n")
  case Nil
  then show ?thesis using dec_digits_nonempty by simp
next
  case (Cons d ds)
  then have small: "\<forall>x\<in>set (d # ds). x < 10" using dec_digits_small by metis
  then show ?thesis
    by (simp add: Cons dec_string_def py_digits_def digit_char_props us_digits_map_digit_char)
qed

lemma py_strip_no_space: "\<forall>c\<in>set s. \<not> py_isspace c \<Longrightarrow> py_strip s = s"
  by (simp add: py_strip_def dropWhile_all_not)

lemma dec_string_no_space: "\<forall>c\<in>set (dec_string n). \<not> py_isspace c"
  using dec_digits_small by (auto simp: dec_string_def digit_char_props)

lemma dec_string_Cons:
  obtains d ds where "dec_string n = digit_char d # map digit_char ds" and "d < 10"
    and "dec_digits n = d # ds"
proof -
  obtain d ds where dd: "dec_digits n = d # ds"
    using dec_digits_nonempty by (cases "dec_digits n") auto
  then have "d < 10" using dec_digits_small by (metis list.set_intros(1))
  with dd show ?thesis using that by (simp add: dec_string_def)
qed

lemma length_dec_string: "length (dec_string n) = length (dec_digits n)"
  by (simp add: dec_string_def)

lemma dec_value_dec_string:
  "length (dec_string n) \<le> int_max_str_digits \<Longrightarrow> dec_value (dec_string n) = Some n"
  by (simp add: dec_value_def py_digits_dec_string length_dec_string digits_val_dec_digits)

lemma signed_literal_dec_string:
  "signed_literal (dec_string n) = map_option int (dec_value (dec_string n))"
proof -
  obtain d ds where eq: "dec_string n = digit_char d # map digit_char ds" and "d < 10"
    by (rule dec_string_Cons)
  from \<open>d < 10\<close> have "digit_char d \<noteq> CHR ''-'' \<and> digit_char d \<noteq> CHR ''+''"
    by (rule digit_char_not_sign)
  then show ?thesis by (simp add: eq)
qed

lemma digits_val_replicate_zero: "digits_val (replicate k 0 @ ds) = digits_val ds"
  by (induction k) (simp_all add: digits_val_def)

lemma length_dec_digits_le: "n < 10 ^ k \<Longrightarrow> 0 < k \<Longrightarrow> length (dec_digits n) \<le> k"
proof (induction n arbitrary: k rule: dec_digits.induct)
  case (1 n)
  show ?case
  proof (cases "n < 10")
    case True
    with "1.prems" show ?thesis by (simp add: dec_digits.simps [of n])
  next
    case False
    obtain k' where k: "k = Suc k'" using "1.prems"(2) by (cases k) auto
    have "0 < k'"
    proof (rule ccontr)
      assume "\<not> 0 < k'"
      then have "k = 1" using k by simp
      with "1.prems"(1) False show False by simp
    qed
    from "1.prems"(1) k have "n div 10 < 10 ^ k'"
      by (simp add: div_less_iff_less_mult mult.commute)
    with "1.IH" [OF False] \<open>0 < k'\<close> have "length (dec_digits (n div 10)) \<le> k'" by blast
    with False k show ?thesis by (simp add: dec_digits.simps [of n])
  qed
qed

text \<open>A nonempty run of decimal digits, leading zeros allowed, reads as its value.\<close>

lemma py_int_map_digit_char:
  assumes "ks \<noteq> []" and "\<forall>k\<in>set ks. k < 10" and "length ks \<le> int_max_str_digits"
  shows "py_int (map digit_char ks) = Some (int (digits_val ks))"
proof -
  obtain k ks' where ks: "ks = k # ks'" using assms(1) by (cases ks) auto
  with assms(2) have "k < 10" by simp
  then have not_sign: "digit_char k \<noteq> CHR ''-'' \<and> digit_char k \<noteq> CHR ''+''"
    by (rule digit_char_not_sign)
  have "\<forall>c\<in>set (map digit_char ks). \<not> py_isspace c"
    using assms(2) by (auto simp: digit_char_props)
  then have "py_strip (map digit_char ks) = map digit_char ks"
    by (rule py_strip_no_space)
  moreover have "py_digits (map digit_char ks) = Some ks"
    using assms(2) ks by (simp add: py_digits_def digit_char_props us_digits_map_digit_char)
  ultimately show ?thesis
    using assms(3) ks not_sign by (simp add: py_int_def dec_value_def)
qed

text \<open>\<open>int(str(i)) == i\<close> for every integer whose decimal form is within the limit.\<close>

lemma py_int_py_str_int:
  assumes "length (dec_string (nat \<bar>i\<bar>)) \<le> int_max_str_digits"
  shows "py_int (py_str_int i) = Some i"
proof (cases "i < 0")
  case True
  have "\<forall>c\<in>set (CHR ''-'' # dec_string (nat (- i))). \<not> py_isspace c"
    using dec_string_no_space by (simp add: py_isspace_def)
  then have "py_strip (py_str_int i) = CHR ''-'' # dec_string (nat (- i))"
    using True by (simp add: py_str_int_def py_strip_no_space)
  moreover have "dec_value (dec_string (nat (- i))) = Some (nat (- i))"
    using assms True by (simp add: dec_value_dec_string)
  ultimately show ?thesis using True by (simp add: py_int_def)
next
  case False
  have "py_strip (py_str_int i) = dec_string (nat i)"
    using False dec_string_no_space by (simp add: py_str_int_def py_strip_no_space)
  moreover have "dec_value (dec_string (nat i)) = Some (nat i)"
    using assms False by (simp add: dec_value_dec_string)
  ultimately show ?thesis using False by (simp add: py_int_def signed_literal_dec_string)
qed

end
