(* ===== verification/Dates.thy ===== *)
theory Dates
  imports PyStr
begin

text \<open>
  The calendar dates of the \<open>borrow_date\<close> field (\<open>src/app.py\<close>, \<open>BookBorrowForm\<close>,
  stored in \<open>BookBorrow.borrow_date\<close>): Python's \<open>datetime.date\<close>, the parser
  \<open>datetime.strptime(s, '%Y-%m-%d')\<close> that WTForms' \<open>DateField\<close> applies to the posted
  value, and \<open>date.isoformat()\<close>, the form in which a browser's date input posts a date.
  The parser is the regular expression \<open>_strptime\<close> compiles for the format, matched
  with Python's leftmost-alternative backtracking, followed by the check that no input
  is left over and by the range checks of the \<open>date\<close> constructor.
\<close>

record date =
  date_year :: int
  date_month :: int
  date_day :: int

definition is_leap :: "int \<Rightarrow> bool" where
  "is_leap y = (y mod 4 = 0 \<and> (y mod 100 \<noteq> 0 \<or> y mod 400 = 0))"

definition days_in_month :: "int \<Rightarrow> int \<Rightarrow> int" where
  "days_in_month y m =
     (if m = 2 \<and> is_leap y then 29
      else [0, 31, 28, 31, 30, 31, 30, 31, 31, 30, 31, 30, 31] ! nat m)"

text \<open>The argument checks of \<open>date(year, month, day)\<close>: \<open>MINYEAR = 1\<close>, \<open>MAXYEAR = 9999\<close>.\<close>

definition valid_date :: "date \<Rightarrow> bool" where
  "valid_date d =
     (1 \<le> date_year d \<and> date_year d \<le> 9999 \<and> 1 \<le> date_month d \<and> date_month d \<le> 12
      \<and> 1 \<le> date_day d \<and> date_day d \<le> days_in_month (date_year d) (date_month d))"

subsection \<open>The regular expression of \<open>%Y-%m-%d\<close>\<close>

text \<open>
  A regex alternative without repetition is a sequence of character classes; a class is
  the string of the characters it admits.
\<close>

fun match_seq :: "string list \<Rightarrow> string \<Rightarrow> (string \<times> string) option" where
  "match_seq [] s = Some ([], s)"
| "match_seq (cl # cls) [] = None"
| "match_seq (cl # cls) (c # cs) =
     (if c \<in> set cl then map_option (\<lambda>(m, r). (c # m, r)) (match_seq cls cs) else None)"

text \<open>The alternatives of a group that match at the start of the input, in the order tried.\<close>

definition alt_matches :: "string list list \<Rightarrow> string \<Rightarrow> (string \<times> string) list" where
  "alt_matches alts s = List.map_filter (\<lambda>alt. match_seq alt s) alts"

definition re_digit :: string where
  "re_digit = ''0123456789''"

text \<open>\<open>(?P<Y>\d\d\d\d)\<close>\<close>

definition year_re :: "string list" where
  "year_re = [re_digit, re_digit, re_digit, re_digit]"

text \<open>\<open>(?P<m>1[0-2]|0[1-9]|[1-9])\<close>\<close>

definition month_alts :: "string list list" where
  "month_alts = [[''1'', ''012''], [''0'', ''123456789''], [''123456789'']]"

text \<open>\<open>(?P<d>3[01]|[12]\d|0[1-9]|[1-9]| [1-9])\<close>\<close>

definition day_alts :: "string list list" where
  "day_alts =
     [[''3'', ''01''], [''12'', re_digit], [''0'', ''123456789''], [''123456789''],
      ['' '', ''123456789'']]"

text \<open>
  After the month group comes the literal \<open>-\<close> and the day group, the last item of the
  pattern: the first month alternative followed by \<open>-\<close> and a day wins, and of the day
  alternatives the first that matches.
\<close>

fun try_month :: "(string \<times> string) list \<Rightarrow> (string \<times> string \<times> string) option" where
  "try_month [] = None"
| "try_month ((m, r) # cands) =
     (case r of
        c # r' \<Rightarrow>
          if c = CHR ''-'' then
            (case alt_matches day_alts r' of
               (d, rest) # _ \<Rightarrow> Some (m, d, rest)
             | [] \<Rightarrow> try_month cands)
          else try_month cands
      | [] \<Rightarrow> try_month cands)"

text \<open>
  \<open>datetime.strptime(s, '%Y-%m-%d').date()\<close>: the regex match, \<open>ValueError\<close> when
  unconverted data remains, \<open>int()\<close> of each group, and the \<open>date\<close> constructor's range
  check. Every failure is \<open>None\<close>.
\<close>

definition strptime_ymd :: "string \<Rightarrow> date option" where
  "strptime_ymd s =
     (case match_seq year_re s of
        Some (y, CHR ''-'' # r) \<Rightarrow>
          (case try_month (alt_matches month_alts r) of
             Some (m, d, []) \<Rightarrow>
               (case (py_int y, py_int m, py_int d) of
                  (Some yy, Some mm, Some dd) \<Rightarrow>
                    let dt = \<lparr>date_year = yy, date_month = mm, date_day = dd\<rparr>
                    in if valid_date dt then Some dt else None
                | _ \<Rightarrow> None)
           | _ \<Rightarrow> None)
      | _ \<Rightarrow> None)"

subsection \<open>\<open>date.isoformat()\<close>\<close>

definition zero_pad :: "nat \<Rightarrow> string \<Rightarrow> string" where
  "zero_pad w s = replicate (w - length s) (CHR ''0'') @ s"

definition isoformat :: "date \<Rightarrow> string" where
  "isoformat d =
     zero_pad 4 (py_str_int (date_year d)) @ ''-'' @ zero_pad 2 (py_str_int (date_month d))
     @ ''-'' @ zero_pad 2 (py_str_int (date_day d))"

subsection \<open>Lemmas\<close>

lemma strptime_ymd_valid: "strptime_ymd s = Some d \<Longrightarrow> valid_date d"
  by (auto simp: strptime_ymd_def Let_def
      split: option.splits prod.splits list.splits if_splits char.splits bool.splits)

lemma match_seq_replicate:
  "set w \<subseteq> set cl \<Longrightarrow> match_seq (replicate (length w) cl) (w @ r) = Some (w, r)"
  by (induction w) auto

lemma digit_char_re_digit: "d < 10 \<Longrightarrow> digit_char d \<in> set re_digit"
  unfolding digit_char_def re_digit_def by (rule nth_mem) simp

text \<open>A field of \<open>isoformat\<close> as a run of digits.\<close>

lemma zero_pad_py_str_int:
  assumes "0 \<le> i" and "i < 10 ^ w" and "0 < w"
  shows "zero_pad w (py_str_int i) =
    map digit_char (replicate (w - length (dec_digits (nat i))) 0 @ dec_digits (nat i))"
proof -
  have "nat i < 10 ^ w" using assms(1,2) by (simp add: nat_less_iff)
  have "digit_char 0 = CHR ''0''" by (simp add: digit_char_def)
  then show ?thesis using assms(1)
    by (simp add: zero_pad_def py_str_int_def dec_string_def length_dec_string)
qed

lemma iso_field_digits:
  assumes "0 \<le> i" and "i < 10 ^ w" and "0 < w" and "w \<le> int_max_str_digits"
  shows "length (zero_pad w (py_str_int i)) = w"
    and "set (zero_pad w (py_str_int i)) \<subseteq> set re_digit"
    and "py_int (zero_pad w (py_str_int i)) = Some i"
proof -
  let ?ks = "replicate (w - length (dec_digits (nat i))) 0 @ dec_digits (nat i)"
  have eq: "zero_pad w (py_str_int i) = map digit_char ?ks"
    using assms(1-3) by (rule zero_pad_py_str_int)
  have "nat i < 10 ^ w" using assms(1,2) by (simp add: nat_less_iff)
  then have len: "length (dec_digits (nat i)) \<le> w"
    using assms(3) by (rule length_dec_digits_le)
  then show "length (zero_pad w (py_str_int i)) = w" by (simp add: eq)
  have small: "\<forall>k\<in>set ?ks. k < 10" using dec_digits_small by auto
  then show "set (zero_pad w (py_str_int i)) \<subseteq> set re_digit"
    by (auto simp: eq digit_char_re_digit)
  have "?ks \<noteq> []" using dec_digits_nonempty by simp
  then have "py_int (map digit_char ?ks) = Some (int (digits_val ?ks))"
    using small len assms(4) by (intro py_int_map_digit_char) auto
  then show "py_int (zero_pad w (py_str_int i)) = Some i"
    using assms(1) by (simp add: eq digits_val_replicate_zero digits_val_dec_digits)
qed

text \<open>
  The month and day fields of \<open>isoformat\<close> against the alternatives of the
  pattern, one calendar value at a time.
\<close>

lemma month_alts_iso:
  assumes "1 \<le> m" and "m \<le> (12::int)"
  shows "\<exists>rest. alt_matches month_alts (zero_pad 2 (py_str_int m) @ r)
    = (zero_pad 2 (py_str_int m), r) # rest"
proof -
  have "m \<in> set [1..12]" using assms by simp
  then have "m \<in> {1,2,3,4,5,6,7,8,9,10,11,12}" by (simp del: set_upto add: upto_rec1)
  then show ?thesis
    by (auto simp: alt_matches_def month_alts_def zero_pad_def py_str_int_def dec_string_def
        dec_digits_lt10 dec_digits_ge10 digit_char_def)
qed

lemma day_alts_iso:
  assumes "1 \<le> d" and "d \<le> (31::int)"
  shows "\<exists>rest. alt_matches day_alts (zero_pad 2 (py_str_int d))
    = (zero_pad 2 (py_str_int d), []) # rest"
proof -
  have "d \<in> set [1..31]" using assms by simp
  then have "d \<in> {1,2,3,4,5,6,7,8,9,10,11,12,13,14,15,16,17,18,19,20,21,22,23,24,25,26,27,28,
      29,30,31}"
    by (simp del: set_upto add: upto_rec1)
  then show ?thesis
    by (auto simp: alt_matches_def day_alts_def re_digit_def zero_pad_def py_str_int_def
        dec_string_def dec_digits_lt10 dec_digits_ge10 digit_char_def)
qed

lemma days_in_month_le_31: "1 \<le> m \<Longrightarrow> m \<le> 12 \<Longrightarrow> days_in_month y m \<le> 31"
proof -
  assume "1 \<le> m" and "m \<le> 12"
  then have "nat m < length [0, 31, 28, 31, 30, 31, 30, 31, 31, 30, 31, 30, 31::int]" by simp
  then have "[0, 31, 28, 31, 30, 31, 30, 31, 31, 30, 31, 30, 31::int] ! nat m
      \<in> set [0, 31, 28, 31, 30, 31, 30, 31, 31, 30, 31, 30, 31]"
    by (rule nth_mem)
  then show ?thesis by (auto simp: days_in_month_def)
qed

text \<open>
  The parse of \<open>isoformat\<close> for every year, month and day in the ranges the pattern
  admits: the date itself when the \<open>date\<close> constructor accepts it, \<open>ValueError\<close>
  otherwise.
\<close>

lemma strptime_isoformat_ranges:
  assumes yr: "1 \<le> date_year d" "date_year d \<le> 9999"
    and mr: "1 \<le> date_month d" "date_month d \<le> 12"
    and dr: "1 \<le> date_day d" "date_day d \<le> 31"
  shows "strptime_ymd (isoformat d) = (if valid_date d then Some d else None)"
proof -
  let ?Y = "zero_pad 4 (py_str_int (date_year d))"
  let ?M = "zero_pad 2 (py_str_int (date_month d))"
  let ?D = "zero_pad 2 (py_str_int (date_day d))"
  have lim: "4 \<le> int_max_str_digits" "2 \<le> int_max_str_digits"
    by (simp_all add: int_max_str_digits_def)
  have Y: "length ?Y = 4" "set ?Y \<subseteq> set re_digit" "py_int ?Y = Some (date_year d)"
    using yr lim by (simp_all add: iso_field_digits)
  have M: "py_int ?M = Some (date_month d)"
    using mr lim by (simp add: iso_field_digits)
  have D: "py_int ?D = Some (date_day d)"
    using dr lim by (simp add: iso_field_digits)
  have yre: "year_re = replicate (length ?Y) re_digit"
    using Y(1) by (simp add: year_re_def numeral_eq_Suc)
  have mY: "match_seq year_re (?Y @ CHR ''-'' # ?M @ CHR ''-'' # ?D)
      = Some (?Y, CHR ''-'' # ?M @ CHR ''-'' # ?D)"
    unfolding yre by (rule match_seq_replicate [OF Y(2)])
  obtain rm where rm: "alt_matches month_alts (?M @ CHR ''-'' # ?D) = (?M, CHR ''-'' # ?D) # rm"
    using month_alts_iso mr by blast
  obtain rd where rd: "alt_matches day_alts ?D = (?D, []) # rd"
    using day_alts_iso dr by blast
  have iso: "isoformat d = ?Y @ CHR ''-'' # ?M @ CHR ''-'' # ?D"
    by (simp add: isoformat_def)
  have rec: "\<lparr>date_year = date_year d, date_month = date_month d, date_day = date_day d\<rparr> = d"
    by simp
  show ?thesis
    by (simp add: iso strptime_ymd_def mY rm rd Y(3) M D Let_def rec)
qed

text \<open>\<open>strptime(d.isoformat(), '%Y-%m-%d').date() == d\<close> for every valid date.\<close>

lemma strptime_isoformat:
  assumes "valid_date d"
  shows "strptime_ymd (isoformat d) = Some d"
proof -
  have "days_in_month (date_year d) (date_month d) \<le> 31"
    using assms by (simp add: valid_date_def days_in_month_le_31)
  then show ?thesis
    using assms strptime_isoformat_ranges [of d] by (simp add: valid_date_def)
qed

text \<open>
  C19. The parser accepts the ISO form of the 29th of February exactly in leap years of
  the Gregorian calendar, and yields that date.
\<close>

lemma strptime_leap_day:
  assumes "1 \<le> y" and "y \<le> 9999"
  shows "strptime_ymd (isoformat \<lparr>date_year = y, date_month = 2, date_day = 29\<rparr>) =
    (if is_leap y then Some \<lparr>date_year = y, date_month = 2, date_day = 29\<rparr> else None)"
proof -
  have "valid_date \<lparr>date_year = y, date_month = 2, date_day = 29\<rparr> \<longleftrightarrow> is_leap y"
    using assms by (simp add: valid_date_def days_in_month_def)
  then show ?thesis
    using assms strptime_isoformat_ranges [of "\<lparr>date_year = y, date_month = 2, date_day = 29\<rparr>"]
    by simp
qed

lemma strptime_leap_day_witness:
  "strptime_ymd ''2024-02-29'' = Some \<lparr>date_year = 2024, date_month = 2, date_day = 29\<rparr>
   \<and> strptime_ymd ''1900-02-29'' = None"
proof -
  have l: "is_leap 2024" "\<not> is_leap 1900" by (simp_all add: is_leap_def)
  have i: "isoformat \<lparr>date_year = 2024, date_month = 2, date_day = 29\<rparr> = ''2024-02-29''"
    "isoformat \<lparr>date_year = 1900, date_month = 2, date_day = 29\<rparr> = ''1900-02-29''"
    by code_simp+
  show ?thesis
    using strptime_leap_day [of 2024] strptime_leap_day [of 1900] l i by simp
qed

end
