(* ===== verification/Forms.thy ===== *)
theory Forms
  imports Dates
begin

text \<open>
  The form layer of \<open>src/app.py\<close> (lines 32--56): the three \<open>FlaskForm\<close> classes
  \<open>AddBookForm\<close>, \<open>BookBorrowForm\<close> and \<open>BookSuggestionForm\<close>, each field with the
  semantics WTForms gives its declaration. A field's validation runs in WTForms' order:
  the errors of \<open>process_formdata\<close> (a failed coercion or date parse), then
  \<open>pre_validate\<close> (a select field's choice check), then the \<open>DataRequired\<close> validator,
  which on failure clears the field's errors and leaves only its own. A validated form
  is the sum \<open>Inr\<close> of its data record; an invalid one is \<open>Inl\<close> of the field errors,
  field by field in declaration order, the CSRF token of \<open>FlaskForm\<close> last.
  \<open>BookBorrowForm\<close>'s book choices are a parameter: the route computes them from the
  database (line 84).
\<close>

datatype field_error =
    Required        \<comment> \<open>"This field is required."\<close>
  | NotValidChoice  \<comment> \<open>"Not a valid choice."\<close>
  | CouldNotCoerce  \<comment> \<open>"Invalid Choice: could not coerce."\<close>
  | NotValidDate    \<comment> \<open>"Not a valid date value."\<close>
  | CsrfInvalid     \<comment> \<open>Flask-WTF: "The CSRF token is missing." and kin\<close>

type_synonym form_errors = "(string \<times> field_error list) list"

subsection \<open>Posted values\<close>

text \<open>\<open>formdata.getlist(name)\<close>: every value posted under the field's name, in order.\<close>

definition getlist :: "formdata \<Rightarrow> string \<Rightarrow> string list" where
  "getlist fd k = map snd (filter (\<lambda>p. fst p = k) fd)"

text \<open>\<open>" ".join(valuelist)\<close>, as \<open>DateField.process_formdata\<close> does.\<close>

fun join_space :: "string list \<Rightarrow> string" where
  "join_space [] = []"
| "join_space [v] = v"
| "join_space (v # vs) = v @ CHR '' '' # join_space vs"

subsection \<open>Fields\<close>

text \<open>
  The chain after \<open>process_formdata\<close>: the process errors, the \<open>pre_validate\<close>
  errors, then \<open>DataRequired\<close>, which replaces all of them when the data is falsy.
\<close>

definition chain_errors :: "field_error list \<Rightarrow> field_error list \<Rightarrow> bool \<Rightarrow> field_error list" where
  "chain_errors process_errs pre_errs truthy =
     (if truthy then process_errs @ pre_errs else [Required])"

text \<open>\<open>DataRequired\<close>'s test: \<open>field.data and (not isinstance(field.data, str) or field.data.strip())\<close>.\<close>

definition str_truthy :: "string option \<Rightarrow> bool" where
  "str_truthy d = (case d of None \<Rightarrow> False | Some s \<Rightarrow> py_strip s \<noteq> [])"

definition int_truthy :: "int option \<Rightarrow> bool" where
  "int_truthy d = (case d of None \<Rightarrow> False | Some n \<Rightarrow> n \<noteq> 0)"

text \<open>The data of a field is valid exactly when its error list is empty.\<close>

definition field_result :: "'a option \<Rightarrow> field_error list \<Rightarrow> field_error list + 'a" where
  "field_result d errs =
     (case d of Some v \<Rightarrow> if errs = [] then Inr v else Inl errs | None \<Rightarrow> Inl errs)"

definition first_value :: "string list \<Rightarrow> string option" where
  "first_value vs = (case vs of [] \<Rightarrow> None | v # _ \<Rightarrow> Some v)"

text \<open>\<open>StringField(label, validators=[DataRequired()])\<close>\<close>

definition string_field :: "string list \<Rightarrow> field_error list + string" where
  "string_field vs =
     (let d = first_value vs in field_result d (chain_errors [] [] (str_truthy d)))"

text \<open>
  \<open>pre_validate\<close> of a \<open>SelectField\<close>: the data must equal the coerced value of one of
  the choices.
\<close>

definition choice_check :: "'a list \<Rightarrow> 'a option \<Rightarrow> field_error list" where
  "choice_check cs d = (if (\<exists>c\<in>set cs. Some c = d) then [] else [NotValidChoice])"

text \<open>\<open>SelectField(label, choices=..., validators=[DataRequired()])\<close>, \<open>coerce=str\<close>\<close>

definition select_field_str :: "string list \<Rightarrow> string list \<Rightarrow> field_error list + string" where
  "select_field_str cs vs =
     (let d = first_value vs
      in field_result d (chain_errors [] (choice_check cs d) (str_truthy d)))"

text \<open>\<open>SelectField(label, choices=..., coerce=int, validators=[DataRequired()])\<close>\<close>

definition coerce_int :: "string list \<Rightarrow> int option \<times> field_error list" where
  "coerce_int vs =
     (case vs of
        [] \<Rightarrow> (None, [])
      | v # _ \<Rightarrow> (case py_int v of None \<Rightarrow> (None, [CouldNotCoerce]) | Some n \<Rightarrow> (Some n, [])))"

definition select_field_int :: "int list \<Rightarrow> string list \<Rightarrow> field_error list + int" where
  "select_field_int cs vs =
     (let (d, perrs) = coerce_int vs
      in field_result d (chain_errors perrs (choice_check cs d) (int_truthy d)))"

text \<open>\<open>DateField(label, validators=[DataRequired()])\<close>, format \<open>%Y-%m-%d\<close>\<close>

definition parse_date_field :: "string list \<Rightarrow> date option \<times> field_error list" where
  "parse_date_field vs =
     (case vs of
        [] \<Rightarrow> (None, [])
      | _ \<Rightarrow> (case strptime_ymd (join_space vs) of
               None \<Rightarrow> (None, [NotValidDate])
             | Some dt \<Rightarrow> (Some dt, [])))"

definition date_field :: "string list \<Rightarrow> field_error list + date" where
  "date_field vs =
     (let (d, perrs) = parse_date_field vs
      in field_result d (chain_errors perrs [] (d \<noteq> None)))"

text \<open>Flask-WTF's hidden \<open>csrf_token\<close> field, its check abstracted to a flag.\<close>

definition csrf_errors :: "bool \<Rightarrow> form_errors" where
  "csrf_errors ok = (if ok then [] else [(''csrf_token'', [CsrfInvalid])])"

definition errs_of :: "string \<Rightarrow> field_error list + 'a \<Rightarrow> form_errors" where
  "errs_of n r = (case r of Inl es \<Rightarrow> [(n, es)] | Inr _ \<Rightarrow> [])"

subsection \<open>Choices declared in the forms\<close>

definition department_choices :: "string list" where
  "department_choices = [''CS'', ''ENG'', ''MATH'']"

definition major_choices :: "string list" where
  "major_choices = [''SE'', ''AI'', ''DS'']"

definition year_choices :: "int list" where
  "year_choices = [1, 2, 3, 4]"

subsection \<open>The three forms\<close>

record add_book_data =
  ab_name :: string
  ab_author :: string
  ab_serial_number :: string
  ab_department :: string
  ab_major :: string
  ab_year :: int

text \<open>\<open>AddBookForm().validate()\<close> and the field data it yields (lines 33--40).\<close>

definition AddBookForm :: "bool \<Rightarrow> formdata \<Rightarrow> form_errors + add_book_data" where
  "AddBookForm csrf fd =
     (let name = string_field (getlist fd ''name'');
          author = string_field (getlist fd ''author'');
          serial = string_field (getlist fd ''serial_number'');
          dept = select_field_str department_choices (getlist fd ''department'');
          major = select_field_str major_choices (getlist fd ''major'');
          year = select_field_int year_choices (getlist fd ''year'')
      in case (name, author, serial, dept, major, year) of
           (Inr n, Inr a, Inr sn, Inr d, Inr m, Inr y) \<Rightarrow>
             if csrf then
               Inr \<lparr>ab_name = n, ab_author = a, ab_serial_number = sn, ab_department = d,
                    ab_major = m, ab_year = y\<rparr>
             else Inl (csrf_errors csrf)
         | _ \<Rightarrow>
             Inl (errs_of ''name'' name @ errs_of ''author'' author
                  @ errs_of ''serial_number'' serial @ errs_of ''department'' dept
                  @ errs_of ''major'' major @ errs_of ''year'' year @ csrf_errors csrf))"

record borrow_data =
  bb_student_name :: string
  bb_student_id :: string
  bb_department :: string
  bb_year :: int
  bb_book :: int
  bb_borrow_date :: date

text \<open>
  \<open>BookBorrowForm().validate()\<close> (lines 42--49) once the route has set
  \<open>form.book.choices\<close> to \<open>ch\<close>, a list of (id, label) pairs.
\<close>

definition BookBorrowForm ::
  "(int \<times> string) list \<Rightarrow> bool \<Rightarrow> formdata \<Rightarrow> form_errors + borrow_data" where
  "BookBorrowForm ch csrf fd =
     (let sname = string_field (getlist fd ''student_name'');
          sid = string_field (getlist fd ''student_id'');
          dept = select_field_str department_choices (getlist fd ''department'');
          year = select_field_int year_choices (getlist fd ''year'');
          book = select_field_int (map fst ch) (getlist fd ''book'');
          bdate = date_field (getlist fd ''borrow_date'')
      in case (sname, sid, dept, year, book, bdate) of
           (Inr n, Inr i, Inr d, Inr y, Inr b, Inr dt) \<Rightarrow>
             if csrf then
               Inr \<lparr>bb_student_name = n, bb_student_id = i, bb_department = d, bb_year = y,
                    bb_book = b, bb_borrow_date = dt\<rparr>
             else Inl (csrf_errors csrf)
         | _ \<Rightarrow>
             Inl (errs_of ''student_name'' sname @ errs_of ''student_id'' sid
                  @ errs_of ''department'' dept @ errs_of ''year'' year @ errs_of ''book'' book
                  @ errs_of ''borrow_date'' bdate @ csrf_errors csrf))"

record suggestion_data =
  sg_student_name :: string
  sg_student_id :: string
  sg_department :: string
  sg_year :: int

text \<open>\<open>BookSuggestionForm().validate()\<close> (lines 51--56).\<close>

definition BookSuggestionForm :: "bool \<Rightarrow> formdata \<Rightarrow> form_errors + suggestion_data" where
  "BookSuggestionForm csrf fd =
     (let sname = string_field (getlist fd ''student_name'');
          sid = string_field (getlist fd ''student_id'');
          dept = select_field_str department_choices (getlist fd ''department'');
          year = select_field_int year_choices (getlist fd ''year'')
      in case (sname, sid, dept, year) of
           (Inr n, Inr i, Inr d, Inr y) \<Rightarrow>
             if csrf then
               Inr \<lparr>sg_student_name = n, sg_student_id = i, sg_department = d, sg_year = y\<rparr>
             else Inl (csrf_errors csrf)
         | _ \<Rightarrow>
             Inl (errs_of ''student_name'' sname @ errs_of ''student_id'' sid
                  @ errs_of ''department'' dept @ errs_of ''year'' year @ csrf_errors csrf))"

subsection \<open>Field lemmas\<close>

lemma field_result_Inr_iff:
  "field_result d errs = Inr v \<longleftrightarrow> d = Some v \<and> errs = []"
  by (auto simp: field_result_def split: option.splits)

lemma field_result_Inl_nonempty:
  "field_result d (chain_errors p q t) = Inl es \<Longrightarrow> (t \<Longrightarrow> d \<noteq> None) \<Longrightarrow> es \<noteq> []"
  by (auto simp: field_result_def chain_errors_def split: option.splits if_splits)

lemma string_field_Inr_iff:
  "string_field vs = Inr v \<longleftrightarrow> first_value vs = Some v \<and> py_strip v \<noteq> []"
  by (auto simp: string_field_def field_result_Inr_iff chain_errors_def str_truthy_def Let_def
      split: option.splits)

lemma select_field_str_Inr_iff:
  "select_field_str cs vs = Inr v \<longleftrightarrow>
     first_value vs = Some v \<and> v \<in> set cs \<and> py_strip v \<noteq> []"
  by (auto simp: select_field_str_def field_result_Inr_iff chain_errors_def str_truthy_def
      choice_check_def Let_def split: if_splits option.splits)

lemma select_field_int_Inr_iff:
  "select_field_int cs vs = Inr n \<longleftrightarrow>
     (\<exists>v. first_value vs = Some v \<and> py_int v = Some n) \<and> n \<in> set cs \<and> n \<noteq> 0"
  by (auto simp: select_field_int_def coerce_int_def first_value_def field_result_Inr_iff
      chain_errors_def int_truthy_def choice_check_def
      split: list.splits option.splits if_splits)

lemma date_field_Inr_iff:
  "date_field vs = Inr d \<longleftrightarrow> vs \<noteq> [] \<and> strptime_ymd (join_space vs) = Some d"
  by (auto simp: date_field_def parse_date_field_def field_result_Inr_iff chain_errors_def
      split: list.splits option.splits)

lemmas field_Inr_iffs =
  string_field_Inr_iff select_field_str_Inr_iff select_field_int_Inr_iff date_field_Inr_iff

lemma field_Inl_nonempty:
  "string_field vs = Inl es \<Longrightarrow> es \<noteq> []"
  "select_field_str cs vs = Inl es \<Longrightarrow> es \<noteq> []"
  "select_field_int ci vs = Inl es \<Longrightarrow> es \<noteq> []"
  "date_field vs = Inl es \<Longrightarrow> es \<noteq> []"
  by (auto simp: string_field_def select_field_str_def select_field_int_def date_field_def
      Let_def str_truthy_def int_truthy_def split: prod.splits option.splits
      elim!: field_result_Inl_nonempty)

lemma errs_of_simps [simp]: "errs_of n (Inl es) = [(n, es)]" "errs_of n (Inr v) = []"
  by (simp_all add: errs_of_def)

subsection \<open>Form lemmas\<close>

lemma AddBookForm_Inr_iff:
  "AddBookForm csrf fd = Inr x \<longleftrightarrow> csrf
     \<and> string_field (getlist fd ''name'') = Inr (ab_name x)
     \<and> string_field (getlist fd ''author'') = Inr (ab_author x)
     \<and> string_field (getlist fd ''serial_number'') = Inr (ab_serial_number x)
     \<and> select_field_str department_choices (getlist fd ''department'') = Inr (ab_department x)
     \<and> select_field_str major_choices (getlist fd ''major'') = Inr (ab_major x)
     \<and> select_field_int year_choices (getlist fd ''year'') = Inr (ab_year x)"
  by (auto simp: AddBookForm_def Let_def split: sum.splits)

lemma BookBorrowForm_Inr_iff:
  "BookBorrowForm ch csrf fd = Inr x \<longleftrightarrow> csrf
     \<and> string_field (getlist fd ''student_name'') = Inr (bb_student_name x)
     \<and> string_field (getlist fd ''student_id'') = Inr (bb_student_id x)
     \<and> select_field_str department_choices (getlist fd ''department'') = Inr (bb_department x)
     \<and> select_field_int year_choices (getlist fd ''year'') = Inr (bb_year x)
     \<and> select_field_int (map fst ch) (getlist fd ''book'') = Inr (bb_book x)
     \<and> date_field (getlist fd ''borrow_date'') = Inr (bb_borrow_date x)"
  by (auto simp: BookBorrowForm_def Let_def split: sum.splits)

lemma BookBorrowForm_book_Inl:
  assumes "select_field_int (map fst ch) (getlist fd ''book'') = Inl es"
  shows "\<exists>errs. BookBorrowForm ch csrf fd = Inl errs \<and> (''book'', es) \<in> set errs"
  using assms by (auto simp: BookBorrowForm_def Let_def errs_of_def split: sum.splits)

lemma select_field_int_not_choice:
  assumes "first_value vs = Some v" and "py_int v = Some n" and "n \<notin> set cs"
  shows "\<exists>es. select_field_int cs vs = Inl es \<and> es \<noteq> []"
proof (cases "select_field_int cs vs")
  case (Inl es)
  then show ?thesis using field_Inl_nonempty(3) by blast
next
  case (Inr m)
  then show ?thesis using assms by (auto simp: select_field_int_Inr_iff)
qed

subsection \<open>Properties of the forms\<close>

lemma choices_nonblank:
  "d \<in> set department_choices \<Longrightarrow> py_strip d \<noteq> []"
  "m \<in> set major_choices \<Longrightarrow> py_strip m \<noteq> []"
  "y \<in> set year_choices \<Longrightarrow> y \<noteq> 0"
  by (auto simp: department_choices_def major_choices_def year_choices_def py_strip_def
      py_isspace_def)

text \<open>
  C13. Every valid Add-Book submission is accepted: when the first value posted for each
  field is non-blank, the department and major are among their choices and the year
  coerces to one of 1..4, the form yields exactly those values.
\<close>

lemma AddBookForm_accepts_valid:
  assumes "getlist fd ''name'' = n # ns" and "py_strip n \<noteq> []"
    and "getlist fd ''author'' = a # au" and "py_strip a \<noteq> []"
    and "getlist fd ''serial_number'' = sn # sns" and "py_strip sn \<noteq> []"
    and "getlist fd ''department'' = d # ds" and "d \<in> set department_choices"
    and "getlist fd ''major'' = m # ms" and "m \<in> set major_choices"
    and "getlist fd ''year'' = y # ys" and "py_int y = Some k" and "k \<in> set year_choices"
  shows "AddBookForm True fd = Inr \<lparr>ab_name = n, ab_author = a, ab_serial_number = sn,
    ab_department = d, ab_major = m, ab_year = k\<rparr>"
  using assms choices_nonblank(1) [of d] choices_nonblank(2) [of m] choices_nonblank(3) [of k]
  by (simp add: AddBookForm_Inr_iff field_Inr_iffs first_value_def)

lemma AddBookForm_accepts_valid_witness:
  "AddBookForm True [(''name'', ''SICP''), (''author'', ''Abelson''), (''serial_number'', ''SN-9''),
     (''department'', ''CS''), (''major'', ''AI''), (''year'', '' +0_3'')]
   = Inr \<lparr>ab_name = ''SICP'', ab_author = ''Abelson'', ab_serial_number = ''SN-9'',
          ab_department = ''CS'', ab_major = ''AI'', ab_year = 3\<rparr>"
proof -
  have y: "py_int '' +0_3'' = Some 3" by (simp add: py_int_eval)
  have s: "py_strip ''SICP'' \<noteq> []" "py_strip ''Abelson'' \<noteq> []" "py_strip ''SN-9'' \<noteq> []"
    by (simp_all add: py_strip_def py_isspace_def)
  show ?thesis
    by (rule AddBookForm_accepts_valid [where y = "'' +0_3''" and k = 3])
      (simp_all add: getlist_def y s department_choices_def major_choices_def year_choices_def)
qed

text \<open>
  C14. What a validated Borrow form yields: a book id among the offered choices, a valid
  calendar date, a department and year from their choices, non-blank student fields, and
  a valid CSRF token.
\<close>

lemma BookBorrowForm_wellformed:
  assumes "BookBorrowForm ch csrf fd = Inr x"
  shows "csrf \<and> bb_book x \<in> set (map fst ch) \<and> valid_date (bb_borrow_date x)
    \<and> bb_department x \<in> set department_choices \<and> bb_year x \<in> set year_choices
    \<and> py_strip (bb_student_name x) \<noteq> [] \<and> py_strip (bb_student_id x) \<noteq> []"
  using assms
  by (auto simp: BookBorrowForm_Inr_iff field_Inr_iffs intro: strptime_ymd_valid)

lemma BookBorrowForm_wellformed_witness:
  "BookBorrowForm [(1, ''Intro to Algorithms by Cormen'')] True
     [(''student_name'', ''Sam''), (''student_id'', ''S1''), (''department'', ''CS''),
      (''year'', ''2''), (''book'', ''1''), (''borrow_date'', ''2024-01-10'')]
   = Inr \<lparr>bb_student_name = ''Sam'', bb_student_id = ''S1'', bb_department = ''CS'',
          bb_year = 2, bb_book = 1,
          bb_borrow_date = \<lparr>date_year = 2024, date_month = 1, date_day = 10\<rparr>\<rparr>
   \<and> (1::int) \<in> set (map fst [(1::int, ''Intro to Algorithms by Cormen'')])
   \<and> valid_date \<lparr>date_year = 2024, date_month = 1, date_day = 10\<rparr>"
proof -
  have h: "BookBorrowForm [(1, ''Intro to Algorithms by Cormen'')] True
     [(''student_name'', ''Sam''), (''student_id'', ''S1''), (''department'', ''CS''),
      (''year'', ''2''), (''book'', ''1''), (''borrow_date'', ''2024-01-10'')]
   = Inr \<lparr>bb_student_name = ''Sam'', bb_student_id = ''S1'', bb_department = ''CS'',
          bb_year = 2, bb_book = 1,
          bb_borrow_date = \<lparr>date_year = 2024, date_month = 1, date_day = 10\<rparr>\<rparr>"
    by code_simp
  show ?thesis using h BookBorrowForm_wellformed [OF h] by simp
qed

text \<open>
  C15. The borrow date field accepts what a browser's date input posts: the ISO form of
  any valid date is read back as that date.
\<close>

lemma date_field_isoformat:
  assumes "valid_date d"
  shows "date_field [isoformat d] = Inr d"
  using assms by (simp add: date_field_Inr_iff strptime_isoformat)

lemma date_field_isoformat_witness:
  "valid_date \<lparr>date_year = 2024, date_month = 2, date_day = 29\<rparr>
   \<and> date_field [''2024-02-29''] = Inr \<lparr>date_year = 2024, date_month = 2, date_day = 29\<rparr>"
proof -
  have v: "valid_date \<lparr>date_year = 2024, date_month = 2, date_day = 29\<rparr>"
    by (simp add: valid_date_def days_in_month_def is_leap_def)
  have i: "isoformat \<lparr>date_year = 2024, date_month = 2, date_day = 29\<rparr> = ''2024-02-29''"
    by code_simp
  show ?thesis using v date_field_isoformat [OF v] i by simp
qed

text \<open>
  C16. A book choice survives the round trip through the page: the option value
  \<open>str(id)\<close> that the browser posts back is coerced by \<open>int\<close> to the same id and
  passes the choice check (ids are positive and far below the digit limit).
\<close>

lemma book_choice_roundtrip:
  assumes "(i, label) \<in> set ch" and "i \<noteq> 0"
    and "length (dec_string (nat \<bar>i\<bar>)) \<le> int_max_str_digits"
  shows "select_field_int (map fst ch) [py_str_int i] = Inr i"
  using assms by (force simp: select_field_int_Inr_iff first_value_def py_int_py_str_int)

lemma book_choice_roundtrip_witness:
  "select_field_int (map fst [(12::int, ''A by B'')]) [py_str_int 12] = Inr 12"
proof -
  have l: "length (dec_string 12) \<le> int_max_str_digits"
    by (simp add: dec_string_def dec_digits_lt10 dec_digits_ge10 int_max_str_digits_def)
  show ?thesis by (rule book_choice_roundtrip [where label = "''A by B''"]) (simp_all add: l)
qed

text \<open>
  C17. A posted borrow date that does not parse is reported as "This field is
  required." and not as "Not a valid date value.": \<open>DataRequired\<close> finds no data and
  clears the parse error before adding its own.
\<close>

lemma date_field_unparsable_required:
  assumes "vs \<noteq> []" and "strptime_ymd (join_space vs) = None"
  shows "date_field vs = Inl [Required]"
  using assms
  by (auto simp: date_field_def parse_date_field_def field_result_def chain_errors_def
      split: list.splits)

lemma date_field_unparsable_required_witness:
  "strptime_ymd ''2023-02-29'' = None \<and> date_field [''2023-02-29''] = Inl [Required]"
proof -
  have h: "strptime_ymd (join_space [''2023-02-29'']) = None" by code_simp
  show ?thesis using h date_field_unparsable_required [OF _ h] by simp
qed

text \<open>
  C30. The integer select fields (year, book) on every branch: no value or one that
  \<open>int()\<close> rejects, and the value 0, give "This field is required." (DataRequired clears
  the other errors, and 0 is falsy); a non-zero value outside the choices gives
  "Not a valid choice."; a non-zero choice is accepted.
\<close>

theorem select_field_int_branches:
  "select_field_int cs vs =
     (case Option.bind (first_value vs) py_int of
        None \<Rightarrow> Inl [Required]
      | Some n \<Rightarrow>
          if n = 0 then Inl [Required] else if n \<in> set cs then Inr n else Inl [NotValidChoice])"
  by (auto simp: select_field_int_def coerce_int_def first_value_def field_result_def
      chain_errors_def int_truthy_def choice_check_def split: list.splits option.splits)

end
