(* ===== verification/Schema.thy ===== *)
theory Schema
  imports Dates
begin

text \<open>
  The persistence layer of \<open>src/app.py\<close> (lines 13--30): the SQLAlchemy models
  \<open>Book\<close> and \<open>BookBorrow\<close> as records, the SQLite database as the two tables in rowid
  order, and the three things the routes do with them: \<open>db.session.add(row)\<close> followed by
  \<open>db.session.commit()\<close>, \<open>Model.query.all()\<close>, and the filtered queries of the
  suggestion route. A new row's \<open>id\<close> is SQLite's rowid for an \<open>INTEGER PRIMARY KEY\<close>
  inserted without one: one more than the largest rowid in the table, 1 when it is empty.
  The only constraint SQLite checks at commit is \<open>unique=True\<close> on
  \<open>Book.serial_number\<close>; the \<open>ForeignKey('book.id')\<close> of \<open>BookBorrow.book_id\<close> is
  not enforced, since the application never enables \<open>PRAGMA foreign_keys\<close>, and the
  \<open>String(n)\<close> lengths are not enforced by SQLite either. A failed commit raises
  \<open>IntegrityError\<close>, modelled as \<open>Inl\<close>; the request's session is then rolled back at
  teardown, so the database is the one before the request.
\<close>

record book =
  book_id :: rowid
  book_name :: string
  book_author :: string
  book_serial_number :: string
  book_department :: string
  book_major :: string
  book_year :: int

record borrow_row =
  borrow_id :: rowid
  borrow_student_name :: string
  borrow_student_id :: string
  borrow_department :: string
  borrow_year :: int
  borrow_book_id :: rowid
  borrow_date :: date

record db =
  book_table :: "book list"
  borrow_table :: "borrow_row list"

text \<open>\<open>db.create_all()\<close> on a fresh \<open>library.db\<close>.\<close>

definition empty_db :: db where
  "empty_db = \<lparr>book_table = [], borrow_table = []\<rparr>"

datatype db_error = IntegrityError string

subsection \<open>Inserting rows\<close>

text \<open>SQLite's choice of rowid for a row inserted without one.\<close>

definition new_rowid :: "rowid list \<Rightarrow> rowid" where
  "new_rowid ids = (case ids of [] \<Rightarrow> 1 | i # js \<Rightarrow> fold max js i + 1)"

text \<open>
  \<open>db.session.add(Book(name=..., ...)); db.session.commit()\<close> (lines 67--76): the
  INSERT at flush fails on a serial number already in the table.
\<close>

definition commit_book ::
  "string \<Rightarrow> string \<Rightarrow> string \<Rightarrow> string \<Rightarrow> string \<Rightarrow> int \<Rightarrow> db \<Rightarrow> db_error + db" where
  "commit_book name author serial dept major year db =
     (if serial \<in> set (map book_serial_number (book_table db))
      then Inl (IntegrityError ''UNIQUE constraint failed: book.serial_number'')
      else Inr (db\<lparr>book_table := book_table db @
             [\<lparr>book_id = new_rowid (map book_id (book_table db)), book_name = name,
               book_author = author, book_serial_number = serial, book_department = dept,
               book_major = major, book_year = year\<rparr>]\<rparr>))"

text \<open>
  \<open>db.session.add(BookBorrow(...)); db.session.commit()\<close> (lines 86--95): no constraint
  of the table can fail, the foreign key included.
\<close>

definition commit_borrow ::
  "string \<Rightarrow> string \<Rightarrow> string \<Rightarrow> int \<Rightarrow> rowid \<Rightarrow> date \<Rightarrow> db \<Rightarrow> db" where
  "commit_borrow sname sid dept year book bdate db =
     db\<lparr>borrow_table := borrow_table db @
        [\<lparr>borrow_id = new_rowid (map borrow_id (borrow_table db)), borrow_student_name = sname,
          borrow_student_id = sid, borrow_department = dept, borrow_year = year,
          borrow_book_id = book, borrow_date = bdate\<rparr>]\<rparr>"

subsection \<open>Queries\<close>

text \<open>\<open>Book.query.all()\<close>, in rowid order.\<close>

definition book_query_all :: "db \<Rightarrow> book list" where
  "book_query_all db = book_table db"

text \<open>\<open>BookBorrow.query.filter_by(student_id=student_id).all()\<close> (line 110).\<close>

definition borrows_of_student :: "string \<Rightarrow> db \<Rightarrow> borrow_row list" where
  "borrows_of_student sid db = filter (\<lambda>r. borrow_student_id r = sid) (borrow_table db)"

text \<open>
  \<open>Book.query.filter(Book.department == department, Book.year == year,
  ~Book.id.in_(ids)).all()\<close> (lines 114--118).
\<close>

definition books_matching :: "string \<Rightarrow> int \<Rightarrow> rowid list \<Rightarrow> db \<Rightarrow> book list" where
  "books_matching dept year ids db =
     filter (\<lambda>b. book_department b = dept \<and> book_year b = year \<and> book_id b \<notin> set ids)
       (book_table db)"

subsection \<open>The table invariant\<close>

text \<open>
  With no deletion anywhere in the program, the rowids of each table are exactly
  \<open>1, 2, ..., n\<close> in insertion order, and serial numbers are pairwise distinct.
\<close>

definition ids_consecutive :: "rowid list \<Rightarrow> bool" where
  "ids_consecutive ids = (ids = [1..int (length ids)])"

definition db_inv :: "db \<Rightarrow> bool" where
  "db_inv db =
     (ids_consecutive (map book_id (book_table db))
      \<and> ids_consecutive (map borrow_id (borrow_table db))
      \<and> distinct (map book_serial_number (book_table db)))"

text \<open>Every borrow record names a book of the table (not checked by SQLite, see above).\<close>

definition refs_ok :: "db \<Rightarrow> bool" where
  "refs_ok db = (\<forall>r\<in>set (borrow_table db). borrow_book_id r \<in> set (map book_id (book_table db)))"

subsection \<open>Lemmas\<close>

lemma new_rowid_Max: "new_rowid (i # js) = Max (insert i (set js)) + 1"
proof -
  have "fold max js i = Max (set (i # js))" by (rule Max.set_eq_fold [symmetric])
  then show ?thesis by (simp add: new_rowid_def)
qed

lemma Max_interval: "1 \<le> n \<Longrightarrow> Max {1..n} = (n::int)"
  by (rule Max_eqI) auto

lemma new_rowid_consecutive:
  "ids_consecutive ids \<Longrightarrow> new_rowid ids = int (length ids) + 1"
proof (cases ids)
  case Nil
  then show ?thesis by (simp add: new_rowid_def)
next
  case (Cons i js)
  assume c: "ids_consecutive ids"
  then have "Max (set ids) = int (length ids)"
    using Cons by (simp add: ids_consecutive_def Max_interval)
  then show ?thesis using Cons by (simp add: new_rowid_Max)
qed

lemma ids_consecutive_snoc:
  "ids_consecutive ids \<Longrightarrow> n = length ids \<Longrightarrow> ids_consecutive (ids @ [int n + 1])"
  by (simp add: ids_consecutive_def upto_rec2)

lemma commit_book_Inr_iff:
  "commit_book n a sn d m y db = Inr db' \<longleftrightarrow>
     sn \<notin> set (map book_serial_number (book_table db))
     \<and> db' = db\<lparr>book_table := book_table db @
          [\<lparr>book_id = new_rowid (map book_id (book_table db)), book_name = n, book_author = a,
            book_serial_number = sn, book_department = d, book_major = m, book_year = y\<rparr>]\<rparr>"
  by (auto simp: commit_book_def)

lemma commit_book_db_inv [inv_intros]:
  "db_inv db \<Longrightarrow> commit_book n a sn d m y db = Inr db' \<Longrightarrow> db_inv db'"
  by (auto simp: commit_book_Inr_iff db_inv_def new_rowid_consecutive ids_consecutive_snoc)

lemma commit_book_refs_ok [inv_intros]:
  "refs_ok db \<Longrightarrow> commit_book n a sn d m y db = Inr db' \<Longrightarrow> refs_ok db'"
  by (auto simp: commit_book_Inr_iff refs_ok_def)

lemma commit_borrow_db_inv [inv_intros]: "db_inv db \<Longrightarrow> db_inv (commit_borrow sn si d y b dt db)"
  by (simp add: commit_borrow_def db_inv_def new_rowid_consecutive ids_consecutive_snoc)

lemma commit_borrow_refs_ok [inv_intros]:
  "refs_ok db \<Longrightarrow> b \<in> set (map book_id (book_table db))
    \<Longrightarrow> refs_ok (commit_borrow sn si d y b dt db)"
  by (auto simp: commit_borrow_def refs_ok_def)

lemma empty_db_inv: "db_inv empty_db" and empty_db_refs_ok: "refs_ok empty_db"
  by (simp_all add: empty_db_def db_inv_def refs_ok_def ids_consecutive_def)

text \<open>
  C18. The store itself does not guard the reference of a borrow record: committing a
  borrow whose book id names no book succeeds and leaves a dangling reference (SQLite
  does not enforce the foreign key unless \<open>PRAGMA foreign_keys\<close> is on).
\<close>

lemma commit_borrow_dangling:
  assumes "b \<notin> set (map book_id (book_table db))"
  shows "\<not> refs_ok (commit_borrow sn si d y b dt db)"
  using assms by (simp add: commit_borrow_def refs_ok_def)

lemma commit_borrow_dangling_witness:
  "(5::int) \<notin> set (map book_id (book_table empty_db))
   \<and> \<not> refs_ok (commit_borrow ''Sam'' ''S1'' ''CS'' 2 5
        \<lparr>date_year = 2024, date_month = 1, date_day = 10\<rparr> empty_db)"
proof -
  have h: "(5::int) \<notin> set (map book_id (book_table empty_db))" by (simp add: empty_db_def)
  show ?thesis using h commit_borrow_dangling [OF h] by simp
qed

end
