(* ===== verification/Routes.thy ===== *)
theory Routes
  imports Forms Schema
begin

text \<open>
  The application layer of \<open>src/app.py\<close> (lines 58--126): the five view functions, the
  Flask URL map that dispatches a request to them, a run of requests one after another,
  and the states of the database reachable from a fresh one. A view takes the request
  and the database and returns the response and the database after the request. Rendered
  pages are modelled by the template name and the context the view passes to
  \<open>render_template\<close>: the form's errors, the book choices of the borrow form, and the
  suggestions. \<open>flash\<close> followed by \<open>redirect\<close> is one response that carries the
  message. An exception escaping a view is Flask's 500 response; the session is rolled
  back at the end of the request.
\<close>

datatype http_method = GET | HEAD | POST | PUT | PATCH | DELETE | OPTIONS

record request =
  req_method :: http_method
  req_path :: string
  req_form :: formdata
  req_csrf :: bool

type_synonym flash = "string \<times> string"

datatype response =
    Render string form_errors "(rowid \<times> string) list" "book list"
  | Redirect string flash
  | InternalServerError db_error
  | NotFound
  | MethodNotAllowed
  | AllowedMethods "http_method list"

text \<open>Flask-WTF's \<open>is_submitted()\<close>: the method is one of \<open>SUBMIT_METHODS\<close>.\<close>

definition is_submitted :: "request \<Rightarrow> bool" where
  "is_submitted rq = (req_method rq \<in> {POST, PUT, PATCH, DELETE})"

subsection \<open>Views\<close>

definition index :: "request \<Rightarrow> db \<Rightarrow> response \<times> db" where
  "index rq db = (Render ''home.html'' [] [] [], db)"

definition home :: "request \<Rightarrow> db \<Rightarrow> response \<times> db" where
  "home rq db = (Render ''home.html'' [] [] [], db)"

definition add_book :: "request \<Rightarrow> db \<Rightarrow> response \<times> db" where
  "add_book rq db =
     (if is_submitted rq then
        (case AddBookForm (req_csrf rq) (req_form rq) of
           Inr f \<Rightarrow>
             (case commit_book (ab_name f) (ab_author f) (ab_serial_number f) (ab_department f)
                     (ab_major f) (ab_year f) db of
                Inl e \<Rightarrow> (InternalServerError e, db)
              | Inr db' \<Rightarrow> (Redirect ''/add_book'' (''Book added successfully!'', ''success''), db'))
         | Inl errs \<Rightarrow> (Render ''add_book.html'' errs [] [], db))
      else (Render ''add_book.html'' [] [] [], db))"

text \<open>\<open>form.book.choices = [(book.id, f"{book.name} by {book.author}") for book in Book.query.all()]\<close>\<close>

definition book_choices :: "db \<Rightarrow> (rowid \<times> string) list" where
  "book_choices db =
     map (\<lambda>b. (book_id b, book_name b @ '' by '' @ book_author b)) (book_query_all db)"

definition book_borrow :: "request \<Rightarrow> db \<Rightarrow> response \<times> db" where
  "book_borrow rq db =
     (let ch = book_choices db
      in if is_submitted rq then
           (case BookBorrowForm ch (req_csrf rq) (req_form rq) of
              Inr f \<Rightarrow>
                (Redirect ''/book_borrow'' (''Book borrowed successfully!'', ''success''),
                 commit_borrow (bb_student_name f) (bb_student_id f) (bb_department f)
                   (bb_year f) (bb_book f) (bb_borrow_date f) db)
            | Inl errs \<Rightarrow> (Render ''book_borrow.html'' errs ch [], db))
         else (Render ''book_borrow.html'' [] ch [], db))"

text \<open>Lines 105--120: the student's borrowed book ids, then the filtered book query.\<close>

definition suggestions_for :: "suggestion_data \<Rightarrow> db \<Rightarrow> book list" where
  "suggestions_for f db =
     (let borrowed_book_ids = map borrow_book_id (borrows_of_student (sg_student_id f) db)
      in books_matching (sg_department f) (sg_year f) borrowed_book_ids db)"

definition book_suggestions :: "request \<Rightarrow> db \<Rightarrow> response \<times> db" where
  "book_suggestions rq db =
     (if is_submitted rq then
        (case BookSuggestionForm (req_csrf rq) (req_form rq) of
           Inr f \<Rightarrow> (Render ''book_suggestions.html'' [] [] (suggestions_for f db), db)
         | Inl errs \<Rightarrow> (Render ''book_suggestions.html'' errs [] [], db))
      else (Render ''book_suggestions.html'' [] [] [], db))"

subsection \<open>Dispatch\<close>

text \<open>
  The URL map built by the \<open>@app.route\<close> decorators: the methods each rule accepts, with
  the \<open>HEAD\<close> and \<open>OPTIONS\<close> that Flask adds; exact paths, so \<open>/add_book/\<close> is not found.
\<close>

definition route_methods :: "string \<Rightarrow> http_method list option" where
  "route_methods p =
     (if p = ''/'' \<or> p = ''/home'' then Some [GET, HEAD, OPTIONS]
      else if p = ''/add_book'' \<or> p = ''/book_borrow'' \<or> p = ''/book_suggestions''
      then Some [GET, HEAD, OPTIONS, POST]
      else None)"

definition view :: "string \<Rightarrow> request \<Rightarrow> db \<Rightarrow> response \<times> db" where
  "view p =
     (if p = ''/'' then index
      else if p = ''/home'' then home
      else if p = ''/add_book'' then add_book
      else if p = ''/book_borrow'' then book_borrow
      else book_suggestions)"

definition app_handle :: "request \<Rightarrow> db \<Rightarrow> response \<times> db" where
  "app_handle rq db =
     (case route_methods (req_path rq) of
        None \<Rightarrow> (NotFound, db)
      | Some ms \<Rightarrow>
          if req_method rq = OPTIONS then (AllowedMethods ms, db)
          else if req_method rq \<notin> set ms then (MethodNotAllowed, db)
          else view (req_path rq) rq db)"

text \<open>Requests handled one after another, each in its own transaction.\<close>

fun app_run :: "request list \<Rightarrow> db \<Rightarrow> response list \<times> db" where
  "app_run [] db = ([], db)"
| "app_run (rq # rqs) db =
     (let (r, db') = app_handle rq db; (rs, db'') = app_run rqs db' in (r # rs, db''))"

subsection \<open>Reachable databases\<close>

inductive app_step :: "db \<Rightarrow> db \<Rightarrow> bool" where
  handle: "app_handle rq db = (r, db') \<Longrightarrow> app_step db db'"

inductive reachable :: "db \<Rightarrow> bool" where
  start: "reachable empty_db"
| step: "reachable db \<Longrightarrow> app_step db db' \<Longrightarrow> reachable db'"

subsection \<open>Well-formed rows\<close>

text \<open>What the forms guarantee of every row the application writes.\<close>

definition book_row_ok :: "book \<Rightarrow> bool" where
  "book_row_ok b =
     (py_strip (book_name b) \<noteq> [] \<and> py_strip (book_author b) \<noteq> []
      \<and> py_strip (book_serial_number b) \<noteq> [] \<and> book_department b \<in> set department_choices
      \<and> book_major b \<in> set major_choices \<and> book_year b \<in> set year_choices)"

definition borrow_row_ok :: "borrow_row \<Rightarrow> bool" where
  "borrow_row_ok r =
     (py_strip (borrow_student_name r) \<noteq> [] \<and> py_strip (borrow_student_id r) \<noteq> []
      \<and> borrow_department r \<in> set department_choices \<and> borrow_year r \<in> set year_choices
      \<and> valid_date (borrow_date r))"

definition rows_ok :: "db \<Rightarrow> bool" where
  "rows_ok db =
     ((\<forall>b\<in>set (book_table db). book_row_ok b) \<and> (\<forall>r\<in>set (borrow_table db). borrow_row_ok r))"

definition app_inv :: "db \<Rightarrow> bool" where
  "app_inv db = (db_inv db \<and> refs_ok db \<and> rows_ok db)"

inductive_cases app_step_cases: "app_step db db'"

declare index_def [view_defs] home_def [view_defs] add_book_def [view_defs]
  book_borrow_def [view_defs] book_suggestions_def [view_defs]

subsection \<open>Effects of the views\<close>

lemma read_only_views:
  "snd (index rq db) = db" "snd (home rq db) = db" "snd (book_suggestions rq db) = db"
  by (auto simp: view_defs split: sum.splits)

lemma add_book_cases:
  assumes "add_book rq db = (r, db')"
  shows "db' = db \<or> (\<exists>f. is_submitted rq \<and> AddBookForm (req_csrf rq) (req_form rq) = Inr f
     \<and> commit_book (ab_name f) (ab_author f) (ab_serial_number f) (ab_department f)
          (ab_major f) (ab_year f) db = Inr db')"
  using assms by (auto simp: add_book_def split: sum.splits if_splits)

lemma book_borrow_cases:
  assumes "book_borrow rq db = (r, db')"
  shows "db' = db \<or> (\<exists>f. is_submitted rq
     \<and> BookBorrowForm (book_choices db) (req_csrf rq) (req_form rq) = Inr f
     \<and> db' = commit_borrow (bb_student_name f) (bb_student_id f) (bb_department f)
          (bb_year f) (bb_book f) (bb_borrow_date f) db)"
  using assms by (auto simp: book_borrow_def Let_def split: sum.splits if_splits)

lemma app_handle_cases:
  assumes "app_handle rq db = (r, db')"
  shows "db' = db \<or> add_book rq db = (r, db') \<or> book_borrow rq db = (r, db')"
proof -
  have "snd (view (req_path rq) rq db) = db \<or> view (req_path rq) rq db = add_book rq db
      \<or> view (req_path rq) rq db = book_borrow rq db"
    using read_only_views by (auto simp: view_def)
  then show ?thesis
    using assms by (auto simp: app_handle_def split: option.splits if_splits)
qed

subsection \<open>The invariant is kept by every request\<close>

lemma add_book_row_ok:
  "AddBookForm csrf fd = Inr f \<Longrightarrow>
    book_row_ok \<lparr>book_id = i, book_name = ab_name f, book_author = ab_author f,
      book_serial_number = ab_serial_number f, book_department = ab_department f,
      book_major = ab_major f, book_year = ab_year f\<rparr>"
  by (auto simp: AddBookForm_Inr_iff field_Inr_iffs book_row_ok_def)

lemma borrow_form_facts:
  assumes "BookBorrowForm ch csrf fd = Inr f"
  shows "bb_book f \<in> set (map fst ch)"
    and "borrow_row_ok \<lparr>borrow_id = i, borrow_student_name = bb_student_name f,
      borrow_student_id = bb_student_id f, borrow_department = bb_department f,
      borrow_year = bb_year f, borrow_book_id = b, borrow_date = bb_borrow_date f\<rparr>"
  using assms
  by (auto simp: BookBorrowForm_Inr_iff field_Inr_iffs borrow_row_ok_def
      intro: strptime_ymd_valid)

lemma set_map_fst_book_choices: "set (map fst (book_choices db)) = set (map book_id (book_table db))"
  by (simp add: book_choices_def book_query_all_def image_image)

lemma add_book_app_inv: "app_inv db \<Longrightarrow> add_book rq db = (r, db') \<Longrightarrow> app_inv db'"
  by (drule add_book_cases)
    (auto simp: app_inv_def rows_ok_def commit_book_Inr_iff add_book_row_ok
      intro: inv_intros)

lemma book_borrow_app_inv:
  assumes inv: "app_inv db" and bb: "book_borrow rq db = (r, db')"
  shows "app_inv db'"
  using book_borrow_cases [OF bb]
proof
  assume "db' = db"
  with inv show ?thesis by simp
next
  assume "\<exists>f. is_submitted rq \<and> BookBorrowForm (book_choices db) (req_csrf rq) (req_form rq) = Inr f
     \<and> db' = commit_borrow (bb_student_name f) (bb_student_id f) (bb_department f)
          (bb_year f) (bb_book f) (bb_borrow_date f) db"
  then obtain f where form: "BookBorrowForm (book_choices db) (req_csrf rq) (req_form rq) = Inr f"
    and db': "db' = commit_borrow (bb_student_name f) (bb_student_id f) (bb_department f)
          (bb_year f) (bb_book f) (bb_borrow_date f) db"
    by blast
  have book: "bb_book f \<in> set (map book_id (book_table db))"
    using borrow_form_facts(1) [OF form] by (simp only: set_map_fst_book_choices)
  have "db_inv db'" and "refs_ok db'" using inv book by (simp_all add: db' app_inv_def inv_intros)
  moreover have "rows_ok db'"
    using inv borrow_form_facts(2) [OF form]
    by (simp add: db' app_inv_def rows_ok_def commit_borrow_def)
  ultimately show ?thesis by (simp add: app_inv_def)
qed

lemma app_handle_app_inv: "app_inv db \<Longrightarrow> app_handle rq db = (r, db') \<Longrightarrow> app_inv db'"
  using app_handle_cases add_book_app_inv book_borrow_app_inv by blast

lemma app_step_app_inv: "app_step db db' \<Longrightarrow> app_inv db \<Longrightarrow> app_inv db'"
  by (erule app_step_cases) (rule app_handle_app_inv)

lemma empty_db_app_inv: "app_inv empty_db"
  using empty_db_inv empty_db_refs_ok by (simp add: app_inv_def rows_ok_def empty_db_def)

lemma app_run_reachable:
  "reachable db \<Longrightarrow> app_run rqs db = (rs, db') \<Longrightarrow> reachable db'"
proof (induction rqs arbitrary: db rs)
  case Nil
  then show ?case by simp
next
  case (Cons rq rqs)
  obtain r db1 where h: "app_handle rq db = (r, db1)" by fastforce
  then have "reachable db1" using Cons.prems(1) by (blast intro: reachable.step app_step.handle)
  moreover obtain rs' where "app_run rqs db1 = (rs', db')"
    using Cons.prems(2) h by (auto split: prod.splits)
  ultimately show ?case by (rule Cons.IH)
qed

lemma reachable_app_inv: "reachable db \<Longrightarrow> app_inv db"
proof (induction rule: reachable.induct)
  case start
  show ?case by (rule empty_db_app_inv)
next
  case (step db db')
  from step.hyps(2) step.IH show ?case by (rule app_step_app_inv)
qed

subsection \<open>Dispatch lemmas\<close>

lemma view_paths:
  "view ''/add_book'' = add_book" "view ''/book_borrow'' = book_borrow"
  "view ''/book_suggestions'' = book_suggestions"
  by (simp_all add: view_def)

lemma app_handle_POST:
  assumes "req_method rq = POST"
    and "req_path rq \<in> {''/add_book'', ''/book_borrow'', ''/book_suggestions''}"
  shows "app_handle rq db = view (req_path rq) rq db"
  using assms by (auto simp: app_handle_def route_methods_def)

lemma is_submitted_POST: "req_method rq = POST \<Longrightarrow> is_submitted rq"
  by (simp add: is_submitted_def)

lemmas post_dispatch = app_handle_POST view_paths is_submitted_POST

text \<open>
  C12. A request whose method is not POST (GET, HEAD, OPTIONS, or a method the route
  refuses) never changes the database.
\<close>

lemma app_handle_not_POST:
  assumes "req_method rq \<noteq> POST"
  shows "snd (app_handle rq db) = db"
proof -
  have "\<not> is_submitted rq" if "req_method rq \<in> set ms" and "route_methods (req_path rq) = Some ms"
    for ms
    using that assms by (auto simp: is_submitted_def route_methods_def split: if_splits)
  then show ?thesis
    using read_only_views
    by (auto simp: app_handle_def view_def view_defs Let_def
        split: option.splits)
qed

lemma app_handle_not_POST_witness:
  "GET \<noteq> POST \<and> snd (app_handle \<lparr>req_method = GET, req_path = ''/add_book'',
     req_form = [(''name'', ''X'')], req_csrf = True\<rparr> empty_db) = empty_db"
  using app_handle_not_POST [of "\<lparr>req_method = GET, req_path = ''/add_book'',
     req_form = [(''name'', ''X'')], req_csrf = True\<rparr>" empty_db] by simp

lemma suggestions_path_read_only:
  "req_path rq = ''/book_suggestions'' \<Longrightarrow> snd (app_handle rq db) = db"
  using read_only_views by (auto simp: app_handle_def view_def split: option.splits)

lemma suggestions_for_mono:
  "set (borrow_table db) \<subseteq> set (borrow_table db') \<Longrightarrow> b \<in> set (suggestions_for f db')
    \<Longrightarrow> b \<in> set (book_table db) \<Longrightarrow> b \<in> set (suggestions_for f db)"
  by (auto simp: suggestions_for_def books_matching_def borrows_of_student_def)

text \<open>
  C24. A request whose CSRF token does not check never changes the database: both
  writing forms refuse it, whatever else they carry.
\<close>

theorem app_handle_csrf_invalid:
  assumes "\<not> req_csrf rq"
  shows "snd (app_handle rq db) = db"
proof -
  obtain r db' where h: "app_handle rq db = (r, db')" by fastforce
  have "db' = db"
    using app_handle_cases [OF h] add_book_cases [of rq db r db'] book_borrow_cases [of rq db r db']
      assms by (auto simp: AddBookForm_Inr_iff BookBorrowForm_Inr_iff)
  with h show ?thesis by simp
qed

text \<open>
  C26. The suggestion URL on every branch (spec 4.3 and 6): a POST renders the form with
  exactly \<open>suggestions_for\<close> of the validated data and no redirect, or the form's
  errors and an empty list when it does not validate; a GET or HEAD renders the empty
  form with an empty list; OPTIONS lists the methods; any other method is refused. None
  of them writes.
\<close>

theorem suggestions_page:
  assumes "req_path rq = ''/book_suggestions''"
  shows "app_handle rq db =
    (if req_method rq = POST then
       (case BookSuggestionForm (req_csrf rq) (req_form rq) of
          Inr f \<Rightarrow> (Render ''book_suggestions.html'' [] [] (suggestions_for f db), db)
        | Inl errs \<Rightarrow> (Render ''book_suggestions.html'' errs [] [], db))
     else if req_method rq = GET \<or> req_method rq = HEAD
     then (Render ''book_suggestions.html'' [] [] [], db)
     else if req_method rq = OPTIONS then (AllowedMethods [GET, HEAD, OPTIONS, POST], db)
     else (MethodNotAllowed, db))"
  using assms
  by (cases "req_method rq")
    (simp_all add: app_handle_def route_methods_def view_def book_suggestions_def is_submitted_def)

text \<open>
  C29. With an empty catalogue no borrow can be recorded: the book field has no choice,
  so every request to the borrow URL leaves the database as it is.
\<close>

theorem borrow_empty_catalogue:
  assumes "book_table db = []" and "req_path rq = ''/book_borrow''"
  shows "snd (app_handle rq db) = db"
proof -
  obtain r db' where h: "app_handle rq db = (r, db')" by fastforce
  then have "db' = db \<or> book_borrow rq db = (r, db')"
    using assms(2) by (auto simp: app_handle_def view_def split: option.splits if_splits)
  moreover have "book_borrow rq db = (r, db') \<Longrightarrow> db' = db"
    using assms(1) borrow_form_facts(1) set_map_fst_book_choices [of db]
    by (fastforce dest: book_borrow_cases)
  ultimately show ?thesis using h by auto
qed

theorem borrow_empty_catalogue_witness:
  "book_table empty_db = [] \<and> req_path \<lparr>req_method = POST, req_path = ''/book_borrow'',
     req_form = [(''book'', ''1'')], req_csrf = True\<rparr> = ''/book_borrow''
   \<and> snd (app_handle \<lparr>req_method = POST, req_path = ''/book_borrow'',
     req_form = [(''book'', ''1'')], req_csrf = True\<rparr> empty_db) = empty_db"
  using borrow_empty_catalogue [of empty_db "\<lparr>req_method = POST, req_path = ''/book_borrow'',
     req_form = [(''book'', ''1'')], req_csrf = True\<rparr>"] by (simp add: empty_db_def)

end
