(* ===== verification/Concurrency.thy ===== *)
theory Concurrency
  imports Routes
begin

text \<open>
  Interleaved requests. \<open>app.run(debug=True)\<close> (line 131) serves each request in its own
  thread, with its own SQLAlchemy session. A writing view has two phases: it reads and
  validates (the form, and for the borrow form the \<open>Book.query.all()\<close> that builds the
  choices), then \<open>db.session.add\<close> and \<open>db.session.commit()\<close> write in one SQLite
  transaction, which SQLite serialises. Between the two phases of one request other
  requests may commit. The phases are \<open>request_begin\<close> (a final response, or the row to
  insert) and \<open>request_commit\<close>; a server state holds the database and the requests in
  flight between their phases, and \<open>srv_step\<close> starts or commits any of them.
\<close>

datatype pending = BookInsert add_book_data | BorrowInsert borrow_data

text \<open>\<open>add_book()\<close> up to \<open>db.session.add\<close> (lines 64--66, 78--79): validation reads no table.\<close>

definition add_book_begin :: "request \<Rightarrow> response + pending" where
  "add_book_begin rq =
     (if is_submitted rq then
        (case AddBookForm (req_csrf rq) (req_form rq) of
           Inr f \<Rightarrow> Inr (BookInsert f)
         | Inl errs \<Rightarrow> Inl (Render ''add_book.html'' errs [] []))
      else Inl (Render ''add_book.html'' [] [] []))"

text \<open>\<open>book_borrow()\<close> up to \<open>db.session.add\<close> (lines 82--85, 97--98): reads the books.\<close>

definition book_borrow_begin :: "request \<Rightarrow> db \<Rightarrow> response + pending" where
  "book_borrow_begin rq db =
     (let ch = book_choices db
      in if is_submitted rq then
           (case BookBorrowForm ch (req_csrf rq) (req_form rq) of
              Inr f \<Rightarrow> Inr (BorrowInsert f)
            | Inl errs \<Rightarrow> Inl (Render ''book_borrow.html'' errs ch []))
         else Inl (Render ''book_borrow.html'' [] ch []))"

text \<open>The first phase of any request; the views other than the two writers only read.\<close>

definition request_begin :: "request \<Rightarrow> db \<Rightarrow> response + pending" where
  "request_begin rq db =
     (case route_methods (req_path rq) of
        None \<Rightarrow> Inl NotFound
      | Some ms \<Rightarrow>
          if req_method rq = OPTIONS then Inl (AllowedMethods ms)
          else if req_method rq \<notin> set ms then Inl MethodNotAllowed
          else if req_path rq = ''/add_book'' then add_book_begin rq
          else if req_path rq = ''/book_borrow'' then book_borrow_begin rq db
          else Inl (fst (view (req_path rq) rq db)))"

text \<open>The commit phase (lines 67--77 and 86--96), against the database of the moment.\<close>

definition request_commit :: "pending \<Rightarrow> db \<Rightarrow> response \<times> db" where
  "request_commit p db =
     (case p of
        BookInsert f \<Rightarrow>
          (case commit_book (ab_name f) (ab_author f) (ab_serial_number f) (ab_department f)
                  (ab_major f) (ab_year f) db of
             Inl e \<Rightarrow> (InternalServerError e, db)
           | Inr db' \<Rightarrow> (Redirect ''/add_book'' (''Book added successfully!'', ''success''), db'))
      | BorrowInsert f \<Rightarrow>
          (Redirect ''/book_borrow'' (''Book borrowed successfully!'', ''success''),
           commit_borrow (bb_student_name f) (bb_student_id f) (bb_department f)
             (bb_year f) (bb_book f) (bb_borrow_date f) db))"

record server =
  srv_db :: db
  srv_pending :: "pending list"

text \<open>A request starts (its first phase runs on the current database) or one in flight commits.\<close>

inductive srv_step :: "server \<Rightarrow> server \<Rightarrow> bool" where
  start_req: "request_begin rq (srv_db s) = Inr p
    \<Longrightarrow> srv_step s (s\<lparr>srv_pending := srv_pending s @ [p]\<rparr>)"
| commit_req: "srv_pending s = ps1 @ p # ps2 \<Longrightarrow> request_commit p (srv_db s) = (r, db')
    \<Longrightarrow> srv_step s \<lparr>srv_db = db', srv_pending = ps1 @ ps2\<rparr>"

inductive srv_reachable :: "server \<Rightarrow> bool" where
  init: "srv_reachable \<lparr>srv_db = empty_db, srv_pending = []\<rparr>"
| step: "srv_reachable s \<Longrightarrow> srv_step s s' \<Longrightarrow> srv_reachable s'"

text \<open>What a request in flight carries: a well-formed row, a borrow naming a book of the table.\<close>

definition pending_ok :: "db \<Rightarrow> pending \<Rightarrow> bool" where
  "pending_ok db p =
     (case p of
        BookInsert f \<Rightarrow>
          book_row_ok \<lparr>book_id = 0, book_name = ab_name f, book_author = ab_author f,
            book_serial_number = ab_serial_number f, book_department = ab_department f,
            book_major = ab_major f, book_year = ab_year f\<rparr>
      | BorrowInsert f \<Rightarrow>
          bb_book f \<in> set (map book_id (book_table db))
          \<and> borrow_row_ok \<lparr>borrow_id = 0, borrow_student_name = bb_student_name f,
              borrow_student_id = bb_student_id f, borrow_department = bb_department f,
              borrow_year = bb_year f, borrow_book_id = bb_book f,
              borrow_date = bb_borrow_date f\<rparr>)"

definition srv_inv :: "server \<Rightarrow> bool" where
  "srv_inv s = (app_inv (srv_db s) \<and> (\<forall>p\<in>set (srv_pending s). pending_ok (srv_db s) p))"

subsection \<open>Sequential handling is the two phases with nothing in between\<close>

lemma add_book_two_phase:
  "add_book rq db = (case add_book_begin rq of Inl r \<Rightarrow> (r, db) | Inr p \<Rightarrow> request_commit p db)"
  by (simp add: add_book_def add_book_begin_def request_commit_def split: sum.splits)

lemma book_borrow_two_phase:
  "book_borrow rq db =
     (case book_borrow_begin rq db of Inl r \<Rightarrow> (r, db) | Inr p \<Rightarrow> request_commit p db)"
  by (simp add: book_borrow_def book_borrow_begin_def request_commit_def Let_def split: sum.splits)

lemma view_read_only:
  "req_path rq \<noteq> ''/add_book'' \<Longrightarrow> req_path rq \<noteq> ''/book_borrow''
    \<Longrightarrow> view (req_path rq) rq db = (fst (view (req_path rq) rq db), db)"
  using read_only_views by (simp add: view_def prod_eq_iff)

text \<open>
  Handling a request alone is running its first phase and, when it has a row to insert,
  committing it at once on the same database: the two encodings of the views agree.
\<close>

lemma app_handle_two_phase:
  "app_handle rq db =
     (case request_begin rq db of Inl r \<Rightarrow> (r, db) | Inr p \<Rightarrow> request_commit p db)"
  using add_book_two_phase [of rq db] book_borrow_two_phase [of rq db] view_read_only [of rq db]
  by (auto simp: app_handle_def request_begin_def view_paths split: option.splits)

subsection \<open>The invariant of the interleaved server\<close>

lemma request_commit_books_mono:
  "request_commit p db = (r, db') \<Longrightarrow> set (book_table db) \<subseteq> set (book_table db')"
  by (auto simp: request_commit_def commit_book_Inr_iff commit_borrow_def
      split: pending.splits sum.splits)

lemma pending_ok_mono:
  "set (book_table db) \<subseteq> set (book_table db') \<Longrightarrow> pending_ok db p \<Longrightarrow> pending_ok db' p"
  by (auto simp: pending_ok_def split: pending.splits)

lemma request_begin_pending_ok: "request_begin rq db = Inr p \<Longrightarrow> pending_ok db p"
  using borrow_form_facts [of "book_choices db"] set_map_fst_book_choices [of db]
  by (auto simp: request_begin_def add_book_begin_def book_borrow_begin_def pending_ok_def
      add_book_row_ok Let_def split: option.splits if_splits sum.splits)

lemma request_commit_app_inv:
  assumes inv: "app_inv db" and ok: "pending_ok db p" and c: "request_commit p db = (r, db')"
  shows "app_inv db'"
proof (cases p)
  case (BookInsert f)
  show ?thesis
  proof (cases "commit_book (ab_name f) (ab_author f) (ab_serial_number f)
      (ab_department f) (ab_major f) (ab_year f) db")
    case (Inl e)
    then show ?thesis using inv c BookInsert by (simp add: request_commit_def)
  next
    case (Inr db'')
    then have "db' = db''" using c BookInsert by (simp add: request_commit_def)
    then show ?thesis
      using inv ok BookInsert commit_book_db_inv [OF _ Inr] commit_book_refs_ok [OF _ Inr] Inr
      by (auto simp: app_inv_def rows_ok_def pending_ok_def book_row_ok_def commit_book_Inr_iff)
  qed
next
  case (BorrowInsert f)
  then have db': "db' = commit_borrow (bb_student_name f) (bb_student_id f) (bb_department f)
      (bb_year f) (bb_book f) (bb_borrow_date f) db"
    using c by (simp add: request_commit_def)
  show ?thesis
    using inv ok BorrowInsert
    by (auto simp: db' app_inv_def pending_ok_def inv_intros)
      (auto simp: rows_ok_def commit_borrow_def borrow_row_ok_def)
qed

lemma request_commit_borrows_mono:
  "request_commit p db = (r, db') \<Longrightarrow> set (borrow_table db) \<subseteq> set (borrow_table db')"
  by (auto simp: request_commit_def commit_book_Inr_iff commit_borrow_def
      split: pending.splits sum.splits)

lemma app_step_tables_mono:
  assumes "app_step db db'"
  shows "set (book_table db) \<subseteq> set (book_table db') \<and> set (borrow_table db) \<subseteq> set (borrow_table db')"
proof -
  obtain rq r where h: "app_handle rq db = (r, db')" using assms by (cases rule: app_step.cases)
  then show ?thesis
    using request_commit_books_mono request_commit_borrows_mono
    by (auto simp: app_handle_two_phase split: sum.splits)
qed

lemma srv_step_srv_inv: "srv_step s s' \<Longrightarrow> srv_inv s \<Longrightarrow> srv_inv s'"
proof (induction rule: srv_step.induct)
  case (start_req rq s p)
  then show ?case by (auto simp: srv_inv_def dest: request_begin_pending_ok)
next
  case (commit_req s ps1 p ps2 r db')
  then have inv: "app_inv (srv_db s)" and ok: "\<forall>q\<in>set (ps1 @ p # ps2). pending_ok (srv_db s) q"
    by (simp_all add: srv_inv_def)
  have "app_inv db'" using request_commit_app_inv [OF inv _ commit_req.hyps(2)] ok by simp
  moreover have "\<forall>q\<in>set (ps1 @ ps2). pending_ok db' q"
    using ok pending_ok_mono [OF request_commit_books_mono [OF commit_req.hyps(2)]] by auto
  ultimately show ?case by (simp add: srv_inv_def)
qed

lemma srv_reachable_srv_inv: "srv_reachable s \<Longrightarrow> srv_inv s"
proof (induction rule: srv_reachable.induct)
  case init
  show ?case using empty_db_app_inv by (simp add: srv_inv_def)
next
  case (step s s')
  from step.hyps(2) step.IH show ?case by (rule srv_step_srv_inv)
qed

lemma srv_start:
  "srv_reachable \<lparr>srv_db = db, srv_pending = ps\<rparr> \<Longrightarrow> request_begin rq db = Inr p
    \<Longrightarrow> srv_reachable \<lparr>srv_db = db, srv_pending = ps @ [p]\<rparr>"
  using srv_reachable.step srv_step.start_req [of rq "\<lparr>srv_db = db, srv_pending = ps\<rparr>" p] by simp

lemma srv_commit:
  assumes "srv_reachable \<lparr>srv_db = db, srv_pending = ps1 @ p # ps2\<rparr>"
    and "snd (request_commit p db) = db'"
  shows "srv_reachable \<lparr>srv_db = db', srv_pending = ps1 @ ps2\<rparr>"
proof -
  have "request_commit p db = (fst (request_commit p db), db')"
    using assms(2) by (simp add: prod_eq_iff)
  then have "srv_step \<lparr>srv_db = db, srv_pending = ps1 @ p # ps2\<rparr>
      \<lparr>srv_db = db', srv_pending = ps1 @ ps2\<rparr>"
    by (intro srv_step.commit_req) simp_all
  with assms(1) show ?thesis by (rule srv_reachable.step)
qed

lemma srv_step_app_step:
  "app_handle rq db = (r, db') \<Longrightarrow> db' = db \<or> (\<exists>p. request_begin rq db = Inr p
     \<and> srv_step \<lparr>srv_db = db, srv_pending = []\<rparr> \<lparr>srv_db = db, srv_pending = [p]\<rparr>
     \<and> srv_step \<lparr>srv_db = db, srv_pending = [p]\<rparr> \<lparr>srv_db = db', srv_pending = []\<rparr>)"
  using srv_step.start_req [of _ "\<lparr>srv_db = db, srv_pending = []\<rparr>"]
    srv_step.commit_req [of "\<lparr>srv_db = db, srv_pending = [p]\<rparr>" "[]" p "[]" for p]
  by (auto simp: app_handle_two_phase split: sum.splits)

text \<open>
  C22. However the requests interleave, every database the threaded server reaches keeps
  the invariant of the sequential one: consecutive ids, distinct serial numbers, every
  borrow record naming a book, every row well formed.
\<close>

theorem srv_reachable_app_inv:
  assumes "srv_reachable s"
  shows "app_inv (srv_db s)"
  using srv_reachable_srv_inv [OF assms] by (simp add: srv_inv_def)

text \<open>
  C23. A borrow validated against the books read at the start of its request still names
  a book of the table when other requests have committed in between: the check on a
  stale read stays sound, since no request deletes a book.
\<close>

theorem srv_pending_borrow_refs:
  assumes "srv_reachable s" and "BorrowInsert f \<in> set (srv_pending s)"
  shows "bb_book f \<in> set (map book_id (book_table (srv_db s)))"
  using srv_reachable_srv_inv [OF assms(1)] assms(2) by (auto simp: srv_inv_def pending_ok_def)

lemma reachable_srv_idle:
  assumes "reachable db"
  shows "srv_reachable \<lparr>srv_db = db, srv_pending = []\<rparr>"
  using assms
proof (induction rule: reachable.induct)
  case start
  show ?case by (rule srv_reachable.init)
next
  case (step db db')
  from step.hyps(2) obtain rq r where h: "app_handle rq db = (r, db')" by (cases rule: app_step.cases)
  show ?case using srv_step_app_step [OF h] step.IH by (auto intro: srv_reachable.step)
qed


end
