(* ===== verification/Server.thy ===== *)
theory Server
  imports Concurrency
begin



text \<open>
  What makes the threaded server serialisable: its database is one the requests reach
  one at a time, and every request in flight would validate the same way if it started now.
\<close>

definition ser_inv :: "server \<Rightarrow> bool" where
  "ser_inv s = (reachable (srv_db s) \<and> (\<forall>p\<in>set (srv_pending s). \<exists>rq. request_begin rq (srv_db s) = Inr p))"

subsection \<open>Stale validation stays valid\<close>

lemma select_field_int_mono:
  "select_field_int cs vs = Inr n \<Longrightarrow> set cs \<subseteq> set cs' \<Longrightarrow> select_field_int cs' vs = Inr n"
  by (auto simp: select_field_int_Inr_iff)

lemma BookBorrowForm_mono:
  "BookBorrowForm ch csrf fd = Inr f \<Longrightarrow> set (map fst ch) \<subseteq> set (map fst ch')
    \<Longrightarrow> BookBorrowForm ch' csrf fd = Inr f"
  using select_field_int_mono [of "map fst ch" "getlist fd ''book''" "bb_book f" "map fst ch'"]
  by (auto simp: BookBorrowForm_Inr_iff)

lemma request_begin_mono:
  assumes "request_begin rq db = Inr p" and "set (book_table db) \<subseteq> set (book_table db')"
  shows "request_begin rq db' = Inr p"
proof -
  have "set (map fst (book_choices db)) \<subseteq> set (map fst (book_choices db'))"
    using assms(2) by (simp only: set_map_fst_book_choices) auto
  then show ?thesis
    using assms(1) BookBorrowForm_mono [of "book_choices db" _ _ _ "book_choices db'"]
    by (auto simp: request_begin_def book_borrow_begin_def Let_def
        split: option.splits if_splits sum.splits)
qed

lemma srv_step_ser_inv: "srv_step s s' \<Longrightarrow> ser_inv s \<Longrightarrow> ser_inv s'"
proof (induction rule: srv_step.induct)
  case (start_req rq s p)
  then show ?case by (auto simp: ser_inv_def)
next
  case (commit_req s ps1 p ps2 r db')
  then have reach: "reachable (srv_db s)"
    and pend: "\<forall>q\<in>set (ps1 @ p # ps2). \<exists>rq. request_begin rq (srv_db s) = Inr q"
    by (simp_all add: ser_inv_def)
  obtain rq where b: "request_begin rq (srv_db s) = Inr p" using pend by auto
  have "app_handle rq (srv_db s) = (r, db')"
    using b commit_req.hyps(2) by (simp add: app_handle_two_phase)
  then have "reachable db'" using reach by (blast intro: reachable.step app_step.handle)
  moreover have "\<forall>q\<in>set (ps1 @ ps2). \<exists>rq. request_begin rq db' = Inr q"
    using pend request_begin_mono [OF _ request_commit_books_mono [OF commit_req.hyps(2)]] by fastforce
  ultimately show ?case by (simp add: ser_inv_def)
qed

lemma srv_reachable_ser_inv: "srv_reachable s \<Longrightarrow> ser_inv s"
proof (induction rule: srv_reachable.induct)
  case init
  show ?case by (simp add: ser_inv_def reachable.start)
next
  case (step s s')
  from step.hyps(2) step.IH show ?case by (rule srv_step_ser_inv)
qed

text \<open>
  C27. The threaded server is serialisable: every database it reaches, however the
  phases of concurrent requests interleave, is reached by handling requests one at a
  time. With \<open>reachable_srv_idle\<close> (a run one request at a time is an interleaving)
  the two models reach exactly the same databases.
\<close>

theorem srv_reachable_serializable:
  assumes "srv_reachable s"
  shows "reachable (srv_db s)"
  using srv_reachable_ser_inv [OF assms] by (simp add: ser_inv_def)


end
