(* ===== verification/Spec2Isabelle.thy ===== *)
theory Spec2Isabelle
  imports Server
begin

text \<open>
  \<^bold>\<open>A verification development of LibraryRecommendation.\<close>

  The program is one Flask application, \<open>src/app.py\<close>: staff register books, record
  that a student borrowed a book, and ask for the books of a department and year that a
  student has not borrowed yet. Its parts, leaf first, and the theories that model them:

  \<^item> \<open>Prelude\<close>: the shared vocabulary (the collections \<open>view_defs\<close>, the view
    definitions unfolded together, and \<open>inv_intros\<close>, the rules that keep the database
    invariant; the types \<open>rowid\<close> and \<open>formdata\<close>) and a generic list lemma.
  \<^item> \<open>PyStr\<close>: the Python string operations the forms apply to posted values:
    \<open>str.strip\<close> (\<open>py_strip\<close>), \<open>int(s)\<close> (\<open>py_int\<close>: whitespace, one sign,
    digits with single underscores, CPython's 4300-digit limit) and \<open>str(n)\<close>
    (\<open>py_str_int\<close>); the lemma \<open>py_int_py_str_int\<close> is \<open>int(str(i)) == i\<close>.
  \<^item> \<open>Dates\<close>: \<open>datetime.date\<close> (\<open>date\<close>, \<open>valid_date\<close>), the parser
    \<open>datetime.strptime(s, '%Y-%m-%d')\<close> that WTForms' \<open>DateField\<close> uses
    (\<open>strptime_ymd\<close>: the regular expression of \<open>_strptime\<close> with its
    alternatives tried in Python's order, the leftover check, the range checks) and
    \<open>date.isoformat()\<close>, which is what a browser's date input posts.
  \<^item> \<open>Forms\<close>: the three form classes (lines 32--56), \<open>AddBookForm\<close>,
    \<open>BookBorrowForm\<close> and \<open>BookSuggestionForm\<close>, each a function from the posted
    \<open>formdata\<close> and the CSRF check to \<open>form_errors + data\<close>. Each field follows
    WTForms: \<open>process_formdata\<close>, the select field's \<open>pre_validate\<close>, then
    \<open>DataRequired\<close>, which on failure replaces all the field's errors by its own.
  \<^item> \<open>Schema\<close>: the models \<open>Book\<close> and \<open>BookBorrow\<close> (lines 13--30) as records,
    the SQLite database \<open>db\<close> as the two tables in rowid order, SQLite's rowid rule
    (\<open>new_rowid\<close>), \<open>session.add\<close> with \<open>commit\<close> (\<open>commit_book\<close>, which fails
    on a duplicate serial number, and \<open>commit_borrow\<close>, which cannot fail: the foreign
    key is not enforced), and the queries of the suggestion view.
  \<^item> \<open>Routes\<close>: the views \<open>index\<close>, \<open>home\<close>, \<open>add_book\<close>, \<open>book_borrow\<close>
    and \<open>book_suggestions\<close> (lines 58--126) as functions from a \<open>request\<close> and the
    \<open>db\<close> to a \<open>response\<close> and the new \<open>db\<close>; Flask's URL map
    (\<open>app_handle\<close>: 404, 405, automatic \<open>HEAD\<close> and \<open>OPTIONS\<close>); runs of requests
    (\<open>app_run\<close>); the step relation \<open>app_step\<close> and the databases \<open>reachable\<close>
    from a fresh one. The invariant \<open>app_inv\<close> (consecutive rowids, distinct serial
    numbers, borrow records naming existing books, every row as the forms admit it) holds
    in every reachable state, by rule induction.
  \<^item> \<open>Concurrency\<close>: \<open>app.run(debug=True)\<close> serves requests in threads, so the
    phases of concurrent requests interleave. Each writing view is split into its
    read-and-validate phase (\<open>request_begin\<close>, with \<open>add_book_begin\<close> and
    \<open>book_borrow_begin\<close>) and its add-and-commit phase (\<open>request_commit\<close>); a
    \<open>server\<close> state holds the database and the requests in flight, and
    \<open>srv_step\<close> starts any request or commits any one in flight. SQLite serialises the
    commits themselves, so one commit is one step.
  \<^item> \<open>Server\<close>: the start of the application (lines 128--131): \<open>create_all\<close> (a
    fresh \<open>library.db\<close> gets empty tables, an existing one keeps its rows) and
    \<open>app_start\<close>; and the serialisability invariant \<open>ser_inv\<close>:
    a validation done on an older database stays valid on a newer one, since books are
    never deleted (\<open>request_begin_mono\<close>).
  \<^item> This theory: the properties that span the components and the concrete data of
    their witnesses (the example scenario of spec section 8, and an interleaving in
    which a book is committed between the validation and the commit of a borrow).

  The components interact only through the database and through the book choices that
  \<open>book_borrow\<close> computes from the \<open>Book\<close> table and passes to \<open>BookBorrowForm\<close>.

  What is proved, by group. The database invariant of every reachable state, for
  requests handled one at a time (C1, C11) and for the threaded server under any
  interleaving of the phases of concurrent requests (C22, C23); the threaded server is
  serialisable (C27), which with \<open>reachable_srv_idle\<close> makes the "single-request-at-a-time
  reasoning is sufficient" of spec section 5 a theorem, and a restart keeps every
  committed row in a reachable state (C28). The suggestion query against its abstract
  contract \<open>suggest_spec\<close> (C2), its consequences (C7, C8, C25) and the suggestion URL on
  every branch (C26). Each view on each branch: insertion (C3, C5), the duplicate serial
  number ending in a 500 (C4), an unknown book refused (C6) and every borrow refused on
  an empty catalogue (C29), requests that write nothing (C9, C12, C24), rows only
  appended (C10). The forms: acceptance of valid input (C13, C14), round trips of the
  values a page posts (C15, C16), error reporting (C17, C30). The store: the foreign
  key not enforced (C18). Python's date parsing: leap days (C19). Behaviours the
  specification leaves open: borrowing a book again (C20) and untrimmed student ids
  (C21). The example scenario of spec section 8 is evaluated in \<open>spec_scenario\<close>.

  Bounds. No definition needs fuel: every loop of the model is structural recursion or
  a list combinator. The only numeric bound is CPython's
  \<open>sys.int_info.default_max_str_digits\<close> = 4300 on the digits \<open>int()\<close> accepts
  (CPython 3.11 and later; the repository pins no version, and no claim depends on it,
  since the values the forms accept are choices). Rowids are unbounded integers, which
  is faithful because \<open>reachable_tables_consistent\<close> shows that the ids of a reachable
  database are \<open>1..n\<close> with \<open>n\<close> the number of inserts, so SQLite's \<open>2^63 - 1\<close>
  case needs that many requests.

  Not modelled: the Jinja templates, which are not in \<open>src/\<close> (a rendered page is its
  template name and context), the \<open>flash\<close> storage in the session cookie, which only
  the templates read (a redirect carries its message), the signing and expiry of the
  CSRF token inside Flask-WTF, which the program only configures through
  \<open>SECRET_KEY\<close> (the check's outcome is a flag of the request), the
  SQLAlchemy session machinery beyond add, commit and rollback, the debugger of
  \<open>debug=True\<close> (its traceback page is the 500 response \<open>InternalServerError\<close>),
  the reloader, and \<open>String(n)\<close> lengths, which SQLite does not enforce.

  Assumptions and gaps of the model, none of which a claim depends on. Strings are lists
  of Latin-1 code points, so Unicode whitespace beyond Latin-1 (stripped by
  \<open>str.strip\<close>) and non-ASCII decimal digits (accepted by \<open>int()\<close>) are not
  represented. Queries without \<open>ORDER BY\<close> (lines 84, 110, 114) are taken to return
  rows in rowid order, SQLite's order for a table scan; SQL does not promise it. The
  suggestion query binds one parameter per borrowed book id, and past SQLite's limit on
  bound variables (32766, or 999 before 3.32) it would raise and give a 500; the model
  has no such limit. A commit never fails with "database is locked" (it would leave the
  database unchanged and give a 500). Flask's automatic \<open>/static/<path:filename>\<close>
  rule is left out, so a request there is 404 in the model where Flask may answer 405.
  Posted data is the string-valued form body; Flask-WTF's reading of a JSON body when
  the form is empty is not modelled.
\<close>

text \<open>The abstract contract of the suggestion query (spec section 4.3).\<close>

definition suggest_spec ::
  "book set \<Rightarrow> borrow_row set \<Rightarrow> string \<Rightarrow> string \<Rightarrow> int \<Rightarrow> book set" where
  "suggest_spec B R sid dept year =
     {b \<in> B. book_department b = dept \<and> book_year b = year
        \<and> \<not> (\<exists>r\<in>R. borrow_student_id r = sid \<and> borrow_book_id r = book_id b)}"

text \<open>A POST from the page, with a valid CSRF token.\<close>

definition post :: "string \<Rightarrow> formdata \<Rightarrow> request" where
  "post p fd = \<lparr>req_method = POST, req_path = p, req_form = fd, req_csrf = True\<rparr>"

text \<open>
  Concrete submissions, rows and databases for the witnesses: the two books and the
  borrow of the scenario of spec section 8.
\<close>

definition book1_form :: formdata where
  "book1_form = [(''name'', ''Intro to Algorithms''), (''author'', ''Cormen''),
     (''serial_number'', ''SN-001''), (''department'', ''CS''), (''major'', ''SE''), (''year'', ''2'')]"

definition book2_form :: formdata where
  "book2_form = [(''name'', ''Clean Code''), (''author'', ''Martin''),
     (''serial_number'', ''SN-002''), (''department'', ''CS''), (''major'', ''SE''), (''year'', ''2'')]"

definition borrow_form :: "string \<Rightarrow> string \<Rightarrow> formdata" where
  "borrow_form sid book = [(''student_name'', ''Sam''), (''student_id'', sid),
     (''department'', ''CS''), (''year'', ''2''), (''book'', book), (''borrow_date'', ''2024-01-10'')]"

definition suggest_form :: "string \<Rightarrow> formdata" where
  "suggest_form sid = [(''student_name'', ''Sam''), (''student_id'', sid),
     (''department'', ''CS''), (''year'', ''2'')]"

definition book1 :: book where
  "book1 = \<lparr>book_id = 1, book_name = ''Intro to Algorithms'', book_author = ''Cormen'',
     book_serial_number = ''SN-001'', book_department = ''CS'', book_major = ''SE'', book_year = 2\<rparr>"

definition book2 :: book where
  "book2 = \<lparr>book_id = 2, book_name = ''Clean Code'', book_author = ''Martin'',
     book_serial_number = ''SN-002'', book_department = ''CS'', book_major = ''SE'', book_year = 2\<rparr>"

definition db1 :: db where
  "db1 = \<lparr>book_table = [book1], borrow_table = []\<rparr>"

definition book1_data :: add_book_data where
  "book1_data = \<lparr>ab_name = ''Intro to Algorithms'', ab_author = ''Cormen'',
     ab_serial_number = ''SN-001'', ab_department = ''CS'', ab_major = ''SE'', ab_year = 2\<rparr>"

definition book2_data :: add_book_data where
  "book2_data = \<lparr>ab_name = ''Clean Code'', ab_author = ''Martin'', ab_serial_number = ''SN-002'',
     ab_department = ''CS'', ab_major = ''SE'', ab_year = 2\<rparr>"

definition borrow1 :: borrow_row where
  "borrow1 = \<lparr>borrow_id = 1, borrow_student_name = ''Sam'', borrow_student_id = ''S1'',
     borrow_department = ''CS'', borrow_year = 2, borrow_book_id = 1,
     borrow_date = \<lparr>date_year = 2024, date_month = 1, date_day = 10\<rparr>\<rparr>"

definition db2 :: db where
  "db2 = \<lparr>book_table = [book1], borrow_table = [borrow1]\<rparr>"

definition suggestion :: "string \<Rightarrow> suggestion_data" where
  "suggestion sid = \<lparr>sg_student_name = ''Sam'', sg_student_id = sid, sg_department = ''CS'',
     sg_year = 2\<rparr>"

text \<open>The example scenario of spec section 8.\<close>

definition scenario :: "request list" where
  "scenario =
     [post ''/add_book'' book1_form, post ''/book_borrow'' (borrow_form ''S1'' ''1''),
      post ''/add_book'' book2_form, post ''/book_suggestions'' (suggest_form ''S1'')]"

text \<open>
  An interleaving of the threaded server: book 1 is added; a borrow of it is validated
  against the books of that moment; book 2 is added and committed before the borrow commits.
\<close>

definition borrow1_data :: borrow_data where
  "borrow1_data = \<lparr>bb_student_name = ''Sam'', bb_student_id = ''S1'', bb_department = ''CS'',
     bb_year = 2, bb_book = 1, bb_borrow_date = \<lparr>date_year = 2024, date_month = 1, date_day = 10\<rparr>\<rparr>"

definition interleaved :: server where
  "interleaved = \<lparr>srv_db = \<lparr>book_table = [book1, book2], borrow_table = []\<rparr>,
     srv_pending = [BorrowInsert borrow1_data]\<rparr>"

subsection \<open>The database invariant\<close>

text \<open>
  C1. In every database the application can reach from a fresh one, the ids of each table
  are \<open>1..n\<close> in insertion order, the serial numbers are pairwise distinct, and every
  borrow record names a book of the table, although SQLite enforces only the second.
\<close>

theorem reachable_tables_consistent:
  assumes "reachable db"
  shows "ids_consecutive (map book_id (book_table db))
    \<and> ids_consecutive (map borrow_id (borrow_table db))
    \<and> distinct (map book_serial_number (book_table db))
    \<and> (\<forall>r\<in>set (borrow_table db). borrow_book_id r \<in> set (map book_id (book_table db)))"
  using reachable_app_inv [OF assms] by (simp add: app_inv_def db_inv_def refs_ok_def)

lemma scenario_reachable: "reachable (snd (app_run scenario empty_db))"
  using app_run_reachable [OF reachable.start, of scenario "fst (app_run scenario empty_db)"]
  by simp

theorem reachable_tables_consistent_witness:
  "reachable (snd (app_run scenario empty_db))
   \<and> ids_consecutive (map book_id (book_table (snd (app_run scenario empty_db))))"
  using scenario_reachable reachable_tables_consistent [OF scenario_reachable] by simp

text \<open>
  C11. In every reachable database every row is one the forms admit: non-blank names,
  authors, serial numbers and student fields, department and major from their choices,
  year in 1..4, and a valid calendar date on every borrow record.
\<close>

theorem reachable_rows_wellformed:
  assumes "reachable db"
  shows "(\<forall>b\<in>set (book_table db). book_row_ok b) \<and> (\<forall>r\<in>set (borrow_table db). borrow_row_ok r)"
  using reachable_app_inv [OF assms] by (simp add: app_inv_def rows_ok_def)


theorem reachable_rows_wellformed_witness:
  "reachable (snd (app_run scenario empty_db))
   \<and> list_all book_row_ok (book_table (snd (app_run scenario empty_db)))
   \<and> list_all borrow_row_ok (borrow_table (snd (app_run scenario empty_db)))"
  using scenario_reachable reachable_rows_wellformed [OF scenario_reachable]
  by (simp add: list_all_iff)

text \<open>
  C2. The suggestion query implements its contract (spec 4.3): the books it returns are
  exactly the books of the table with the submitted department and year whose id is not
  the book id of any borrow record of the submitted student id, whatever department
  and year those records carry.
\<close>

theorem suggestions_refine_spec:
  "set (suggestions_for f db) =
     suggest_spec (set (book_table db)) (set (borrow_table db)) (sg_student_id f) (sg_department f)
       (sg_year f)"
  by (auto simp: suggestions_for_def books_matching_def borrows_of_student_def suggest_spec_def
      image_iff)

text \<open>
  C3. A valid Add-Book submission whose serial number is new redirects to the
  Add-Book page with the success message and appends exactly one row to the book table,
  with the submitted values and the next id.
\<close>

theorem add_book_inserts:
  assumes "req_method rq = POST" and "req_path rq = ''/add_book''"
    and "AddBookForm (req_csrf rq) (req_form rq) = Inr f"
    and "ab_serial_number f \<notin> set (map book_serial_number (book_table db))"
    and "db_inv db"
  shows "app_handle rq db =
    (Redirect ''/add_book'' (''Book added successfully!'', ''success''),
     db\<lparr>book_table := book_table db @
       [\<lparr>book_id = int (length (book_table db)) + 1, book_name = ab_name f,
         book_author = ab_author f, book_serial_number = ab_serial_number f,
         book_department = ab_department f, book_major = ab_major f, book_year = ab_year f\<rparr>]\<rparr>)"
  using assms
  by (simp add: post_dispatch add_book_def commit_book_def db_inv_def new_rowid_consecutive)


theorem add_book_inserts_witness:
  "AddBookForm True book2_form = Inr book2_data
   \<and> app_handle (post ''/add_book'' book2_form) db1 =
      (Redirect ''/add_book'' (''Book added successfully!'', ''success''),
       \<lparr>book_table = [book1, book2], borrow_table = []\<rparr>)"
proof -
  have f: "AddBookForm True book2_form = Inr book2_data" by code_simp
  have s: "ab_serial_number book2_data \<notin> book_serial_number ` set (book_table db1)"
    by code_simp
  have i: "db_inv db1" by code_simp
  have "app_handle (post ''/add_book'' book2_form) db1 =
    (Redirect ''/add_book'' (''Book added successfully!'', ''success''),
     db1\<lparr>book_table := book_table db1 @
       [\<lparr>book_id = int (length (book_table db1)) + 1, book_name = ab_name book2_data,
         book_author = ab_author book2_data, book_serial_number = ab_serial_number book2_data,
         book_department = ab_department book2_data, book_major = ab_major book2_data,
         book_year = ab_year book2_data\<rparr>]\<rparr>)"
    by (rule add_book_inserts) (simp_all add: post_def f s i)
  moreover have "db1\<lparr>book_table := book_table db1 @
       [\<lparr>book_id = int (length (book_table db1)) + 1, book_name = ab_name book2_data,
         book_author = ab_author book2_data, book_serial_number = ab_serial_number book2_data,
         book_department = ab_department book2_data, book_major = ab_major book2_data,
         book_year = ab_year book2_data\<rparr>]\<rparr> = \<lparr>book_table = [book1, book2], borrow_table = []\<rparr>"
    by code_simp
  ultimately show ?thesis using f by simp
qed

text \<open>
  C4. A valid Add-Book submission with a serial number already in the table leaves the
  database unchanged and ends in an internal server error (the unhandled
  IntegrityError), not in the form with an error message.
\<close>

theorem add_book_duplicate_serial:
  assumes "req_method rq = POST" and "req_path rq = ''/add_book''"
    and "AddBookForm (req_csrf rq) (req_form rq) = Inr f"
    and "ab_serial_number f \<in> set (map book_serial_number (book_table db))"
  shows "app_handle rq db =
    (InternalServerError (IntegrityError ''UNIQUE constraint failed: book.serial_number''), db)"
  using assms by (simp add: post_dispatch add_book_def commit_book_def)


theorem add_book_duplicate_serial_witness:
  "app_handle (post ''/add_book'' book1_form) db1 =
    (InternalServerError (IntegrityError ''UNIQUE constraint failed: book.serial_number''), db1)"
proof -
  have f: "AddBookForm True book1_form = Inr book1_data" by code_simp
  have s: "ab_serial_number book1_data \<in> book_serial_number ` set (book_table db1)" by code_simp
  show ?thesis
    by (rule add_book_duplicate_serial [where f = book1_data]) (simp_all add: post_def f s)
qed

text \<open>
  C5. A valid Borrow submission redirects with the success message and appends exactly
  one borrow record, with the submitted values and the next id, naming a book that is in
  the book table.
\<close>

theorem book_borrow_inserts:
  assumes "req_method rq = POST" and "req_path rq = ''/book_borrow''"
    and "BookBorrowForm (book_choices db) (req_csrf rq) (req_form rq) = Inr f"
    and "db_inv db"
  shows "app_handle rq db =
    (Redirect ''/book_borrow'' (''Book borrowed successfully!'', ''success''),
     db\<lparr>borrow_table := borrow_table db @
       [\<lparr>borrow_id = int (length (borrow_table db)) + 1, borrow_student_name = bb_student_name f,
         borrow_student_id = bb_student_id f, borrow_department = bb_department f,
         borrow_year = bb_year f, borrow_book_id = bb_book f,
         borrow_date = bb_borrow_date f\<rparr>]\<rparr>)
    \<and> bb_book f \<in> set (map book_id (book_table db))"
proof -
  have "bb_book f \<in> set (map book_id (book_table db))"
    using borrow_form_facts(1) [OF assms(3)] by (simp only: set_map_fst_book_choices)
  then show ?thesis
    using assms
    by (simp add: post_dispatch book_borrow_def commit_borrow_def db_inv_def new_rowid_consecutive)
qed


theorem book_borrow_inserts_witness:
  "app_handle (post ''/book_borrow'' (borrow_form ''S1'' ''1'')) db1 =
    (Redirect ''/book_borrow'' (''Book borrowed successfully!'', ''success''), db2)"
proof -
  let ?f = "\<lparr>bb_student_name = ''Sam'', bb_student_id = ''S1'', bb_department = ''CS'',
    bb_year = 2, bb_book = 1, bb_borrow_date = \<lparr>date_year = 2024, date_month = 1, date_day = 10\<rparr>\<rparr>"
  have f: "BookBorrowForm (book_choices db1) True (borrow_form ''S1'' ''1'') = Inr ?f"
    by code_simp
  have i: "db_inv db1" by code_simp
  have "app_handle (post ''/book_borrow'' (borrow_form ''S1'' ''1'')) db1 =
    (Redirect ''/book_borrow'' (''Book borrowed successfully!'', ''success''),
     db1\<lparr>borrow_table := borrow_table db1 @
       [\<lparr>borrow_id = int (length (borrow_table db1)) + 1, borrow_student_name = bb_student_name ?f,
         borrow_student_id = bb_student_id ?f, borrow_department = bb_department ?f,
         borrow_year = bb_year ?f, borrow_book_id = bb_book ?f,
         borrow_date = bb_borrow_date ?f\<rparr>]\<rparr>)
    \<and> bb_book ?f \<in> set (map book_id (book_table db1))"
    by (rule book_borrow_inserts) (simp_all add: post_def f i)
  then show ?thesis by (simp add: db1_def db2_def borrow1_def)
qed

text \<open>
  C6. A Borrow submission whose book value names no book of the table is refused: the
  form is rendered again with an error on the book field and nothing is written.
\<close>

theorem book_borrow_unknown_book:
  assumes "req_method rq = POST" and "req_path rq = ''/book_borrow''"
    and "first_value (getlist (req_form rq) ''book'') = Some v" and "py_int v = Some n"
    and "n \<notin> set (map book_id (book_table db))"
  shows "\<exists>errs es. app_handle rq db = (Render ''book_borrow.html'' errs (book_choices db) [], db)
    \<and> (''book'', es) \<in> set errs \<and> es \<noteq> []"
proof -
  have "n \<notin> set (map fst (book_choices db))"
    unfolding set_map_fst_book_choices by (rule assms(5))
  then obtain es where es: "select_field_int (map fst (book_choices db)) (getlist (req_form rq) ''book'')
      = Inl es" and "es \<noteq> []"
    using select_field_int_not_choice [OF assms(3,4)] by blast
  obtain errs where "BookBorrowForm (book_choices db) (req_csrf rq) (req_form rq) = Inl errs"
    and "(''book'', es) \<in> set errs"
    using BookBorrowForm_book_Inl [OF es] by blast
  with assms(1,2) \<open>es \<noteq> []\<close> show ?thesis
    by (auto simp: post_dispatch book_borrow_def Let_def)
qed


theorem book_borrow_unknown_book_witness:
  "\<exists>errs es. app_handle (post ''/book_borrow'' (borrow_form ''S1'' ''7'')) db1 =
     (Render ''book_borrow.html'' errs (book_choices db1) [], db1)
   \<and> (''book'', es) \<in> set errs \<and> es \<noteq> []"
proof -
  have v: "first_value (getlist (borrow_form ''S1'' ''7'') ''book'') = Some ''7''" by code_simp
  have n: "py_int ''7'' = Some 7" by code_simp
  have m: "(7::int) \<notin> book_id ` set (book_table db1)" by code_simp
  show ?thesis
    by (rule book_borrow_unknown_book [where v = "''7''" and n = 7]) (simp_all add: post_def v n m)
qed

text \<open>
  C7. A book the student has borrowed (a borrow record with the student's id and the
  book's id) is never among the student's suggestions.
\<close>

theorem suggestions_exclude_borrowed:
  assumes "r \<in> set (borrow_table db)" and "borrow_student_id r = sg_student_id f"
    and "book_id b = borrow_book_id r"
  shows "b \<notin> set (suggestions_for f db)"
  using assms by (auto simp: suggestions_for_def books_matching_def borrows_of_student_def)


theorem suggestions_exclude_borrowed_witness:
  "book1 \<in> set (book_table db2) \<and> book1 \<notin> set (suggestions_for (suggestion ''S1'') db2)"
proof -
  have "book1 \<notin> set (suggestions_for (suggestion ''S1'') db2)"
    by (rule suggestions_exclude_borrowed [where r = borrow1])
      (simp_all add: db2_def borrow1_def book1_def suggestion_def)
  then show ?thesis by (simp add: db2_def)
qed

text \<open>
  C8. For a student with no borrow record the suggestions are exactly the books of the
  submitted department and year, in table order.
\<close>

theorem suggestions_without_history:
  assumes "borrows_of_student (sg_student_id f) db = []"
  shows "suggestions_for f db =
    filter (\<lambda>b. book_department b = sg_department f \<and> book_year b = sg_year f) (book_table db)"
  using assms by (simp add: suggestions_for_def books_matching_def)


theorem suggestions_without_history_witness:
  "suggestions_for (suggestion ''S2'') db2 = [book1]"
proof -
  have "borrows_of_student (sg_student_id (suggestion ''S2'')) db2 = []" by code_simp
  then have "suggestions_for (suggestion ''S2'') db2 =
    filter (\<lambda>b. book_department b = sg_department (suggestion ''S2'')
      \<and> book_year b = sg_year (suggestion ''S2'')) (book_table db2)"
    by (rule suggestions_without_history)
  then show ?thesis by (simp add: db2_def book1_def suggestion_def)
qed

text \<open>
  C9. A suggestion request writes nothing, so issuing it twice in a row gives the same
  response twice and leaves the database as it was.
\<close>

theorem book_suggestions_idempotent:
  assumes "req_path rq = ''/book_suggestions''" and "app_handle rq db = (r, db')"
  shows "db' = db \<and> app_run [rq, rq] db = ([r, r], db)"
proof -
  have "db' = db" using suggestions_path_read_only [OF assms(1), of db] assms(2) by simp
  with assms(2) show ?thesis by simp
qed


theorem book_suggestions_idempotent_witness:
  "app_run [post ''/book_suggestions'' (suggest_form ''S1''),
            post ''/book_suggestions'' (suggest_form ''S1'')] db2 =
   ([Render ''book_suggestions.html'' [] [] [], Render ''book_suggestions.html'' [] [] []], db2)"
proof -
  have h: "app_handle (post ''/book_suggestions'' (suggest_form ''S1'')) db2 =
    (Render ''book_suggestions.html'' [] [] [], db2)"
    by code_simp
  show ?thesis
    using book_suggestions_idempotent [OF _ h] by (simp add: post_def)
qed

text \<open>
  C10. Every request either leaves both tables unchanged or appends one row to one of
  them: rows are never updated or deleted.
\<close>

theorem app_step_append_only:
  assumes "app_step db db'"
  shows "\<exists>bs rs. book_table db' = book_table db @ bs \<and> borrow_table db' = borrow_table db @ rs
    \<and> length bs + length rs \<le> 1"
  using assms
proof cases
  case (handle rq r)
  then consider "db' = db" | "add_book rq db = (r, db')" | "book_borrow rq db = (r, db')"
    using app_handle_cases by blast
  then show ?thesis
  proof cases
    case 1
    then show ?thesis by simp
  next
    case 2
    then show ?thesis
      by (auto dest!: add_book_cases simp: commit_book_Inr_iff)
  next
    case 3
    then show ?thesis
      by (auto dest!: book_borrow_cases simp: commit_borrow_def)
  qed
qed


theorem app_step_append_only_witness:
  "app_step db1 \<lparr>book_table = [book1, book2], borrow_table = []\<rparr>
   \<and> (\<exists>bs rs. [book1, book2] = book_table db1 @ bs \<and> [] = borrow_table db1 @ rs
        \<and> length bs + length rs \<le> 1)"
proof -
  have h: "app_handle (post ''/add_book'' book2_form) db1 =
    (Redirect ''/add_book'' (''Book added successfully!'', ''success''),
     \<lparr>book_table = [book1, book2], borrow_table = []\<rparr>)"
    by code_simp
  then have st: "app_step db1 \<lparr>book_table = [book1, book2], borrow_table = []\<rparr>"
    by (rule app_step.handle)
  show ?thesis using st app_step_append_only [OF st] by simp
qed

text \<open>
  The example of spec section 8, evaluated: the scenario (add a book, borrow it as S1, add a second
  book of the same department and year, ask for S1's suggestions) gives three success
  redirects and a suggestion list holding only the second book.
\<close>

lemma spec_scenario:
  "fst (app_run scenario empty_db) =
    [Redirect ''/add_book'' (''Book added successfully!'', ''success''),
     Redirect ''/book_borrow'' (''Book borrowed successfully!'', ''success''),
     Redirect ''/add_book'' (''Book added successfully!'', ''success''),
     Render ''book_suggestions.html'' [] [] [book2]]"
  by (simp add: scenario_def book2_def) code_simp

subsection \<open>Behaviour the specification leaves open\<close>

text \<open>
  C20. Nothing prevents a book from being borrowed again (spec section 9, open question):
  a valid borrow of a book adds one more borrow record for it, however many records of
  that book, by the same student or another, the table already holds.
\<close>

theorem double_borrow_accepted:
  assumes "req_method rq = POST" and "req_path rq = ''/book_borrow''"
    and "BookBorrowForm (book_choices db) (req_csrf rq) (req_form rq) = Inr f"
  shows "count_list (map borrow_book_id (borrow_table (snd (app_handle rq db)))) (bb_book f)
    = Suc (count_list (map borrow_book_id (borrow_table db)) (bb_book f))"
  using assms by (simp add: post_dispatch book_borrow_def commit_borrow_def Let_def)

theorem double_borrow_accepted_witness:
  "req_method (post ''/book_borrow'' (borrow_form ''S2'' ''1'')) = POST
   \<and> req_path (post ''/book_borrow'' (borrow_form ''S2'' ''1'')) = ''/book_borrow''
   \<and> BookBorrowForm (book_choices db2) True (borrow_form ''S2'' ''1'') = Inr (borrow1_data\<lparr>bb_student_id := ''S2''\<rparr>)
   \<and> count_list (map borrow_book_id (borrow_table db2)) 1 = 1
   \<and> count_list (map borrow_book_id (borrow_table (snd (app_handle (post ''/book_borrow'' (borrow_form ''S2'' ''1'')) db2)))) 1 = 2"
proof -
  have f: "BookBorrowForm (book_choices db2) True (borrow_form ''S2'' ''1'') = Inr (borrow1_data\<lparr>bb_student_id := ''S2''\<rparr>)"
    by code_simp
  have c: "count_list (map borrow_book_id (borrow_table db2)) 1 = 1" by code_simp
  show ?thesis
    using f c double_borrow_accepted [of "post ''/book_borrow'' (borrow_form ''S2'' ''1'')" db2]
    by (simp add: post_def borrow1_data_def)
qed

text \<open>
  C21. Student ids are compared exactly as posted: \<open>DataRequired\<close> strips only for its
  test, so an id that differs from another only in surrounding whitespace is another
  student, and the books the first one borrowed are still suggested to it.
\<close>

theorem student_id_untrimmed:
  assumes "py_strip (sg_student_id f) = py_strip sid" and "sg_student_id f \<noteq> sid"
    and "b \<in> set (book_table db)" and "book_department b = sg_department f"
    and "book_year b = sg_year f"
    and "\<forall>r\<in>set (borrow_table db). borrow_book_id r = book_id b \<longrightarrow> borrow_student_id r = sid"
  shows "b \<in> set (suggestions_for f db)"
  using assms by (auto simp: suggestions_for_def books_matching_def borrows_of_student_def)

theorem student_id_untrimmed_witness:
  "py_strip (sg_student_id (suggestion ''S1 '')) = py_strip ''S1'' \<and> sg_student_id (suggestion ''S1 '') \<noteq> ''S1''
   \<and> book1 \<in> set (book_table db2) \<and> book_department book1 = sg_department (suggestion ''S1 '')
   \<and> book_year book1 = sg_year (suggestion ''S1 '')
   \<and> borrow_student_id borrow1 = ''S1'' \<and> borrow_table db2 = [borrow1]
   \<and> book1 \<in> set (suggestions_for (suggestion ''S1 '') db2)"
proof -
  have s: "py_strip (sg_student_id (suggestion ''S1 '')) = py_strip ''S1''" by code_simp
  have o: "\<forall>r\<in>set (borrow_table db2). borrow_book_id r = book_id book1 \<longrightarrow> borrow_student_id r = ''S1''"
    by (simp add: db2_def borrow1_def)
  show ?thesis
    using s o student_id_untrimmed [of "suggestion ''S1 ''" "''S1''" book1 db2]
    by (simp add: suggestion_def book1_def db2_def borrow1_def)
qed

subsection \<open>Request security and the suggestions over time\<close>

theorem app_handle_csrf_invalid_witness:
  "\<not> req_csrf \<lparr>req_method = POST, req_path = ''/add_book'', req_form = book1_form, req_csrf = False\<rparr>
   \<and> snd (app_handle \<lparr>req_method = POST, req_path = ''/add_book'', req_form = book1_form,
       req_csrf = False\<rparr> empty_db) = empty_db"
  using app_handle_csrf_invalid [of "\<lparr>req_method = POST, req_path = ''/add_book'',
      req_form = book1_form, req_csrf = False\<rparr>" empty_db] by simp

text \<open>
  C25. A request can make a book appear among a student's suggestions only by adding it:
  a book already in the table that was not suggested stays unsuggested, since borrow
  records only accumulate.
\<close>

theorem suggestions_new_only_new_books:
  assumes "app_step db db'" and "b \<in> set (suggestions_for f db')"
    and "b \<notin> set (suggestions_for f db)"
  shows "b \<notin> set (book_table db)"
  using assms suggestions_for_mono app_step_tables_mono by blast

theorem suggestions_new_only_new_books_witness:
  "app_step db1 \<lparr>book_table = [book1, book2], borrow_table = []\<rparr>
   \<and> book2 \<in> set (suggestions_for (suggestion ''S1'') \<lparr>book_table = [book1, book2], borrow_table = []\<rparr>)
   \<and> book2 \<notin> set (suggestions_for (suggestion ''S1'') db1)
   \<and> book2 \<notin> set (book_table db1)"
proof -
  have "app_handle (post ''/add_book'' book2_form) db1 =
      (Redirect ''/add_book'' (''Book added successfully!'', ''success''),
       \<lparr>book_table = [book1, book2], borrow_table = []\<rparr>)"
    by code_simp
  then have s: "app_step db1 \<lparr>book_table = [book1, book2], borrow_table = []\<rparr>"
    by (rule app_step.handle)
  have in2: "book2 \<in> set (suggestions_for (suggestion ''S1'') \<lparr>book_table = [book1, book2], borrow_table = []\<rparr>)"
    by code_simp
  have out1: "book2 \<notin> set (suggestions_for (suggestion ''S1'') db1)" by code_simp
  show ?thesis using s in2 out1 suggestions_new_only_new_books [OF s in2 out1] by simp
qed

subsection \<open>Witnesses of the interleaving properties\<close>

lemma interleaved_reachable: "srv_reachable interleaved"
proof -
  have "srv_reachable \<lparr>srv_db = empty_db, srv_pending = [BookInsert book1_data]\<rparr>"
    by (rule srv_start [OF srv_reachable.init, of "post ''/add_book'' book1_form", simplified])
      code_simp
  then have "srv_reachable \<lparr>srv_db = db1, srv_pending = []\<rparr>"
    by (rule srv_commit [of _ "[]" _ "[]", simplified]) code_simp
  then have "srv_reachable \<lparr>srv_db = db1, srv_pending = [BorrowInsert borrow1_data]\<rparr>"
    by (rule srv_start [of _ "[]" "post ''/book_borrow'' (borrow_form ''S1'' ''1'')", simplified])
      code_simp
  then have "srv_reachable \<lparr>srv_db = db1,
      srv_pending = [BorrowInsert borrow1_data, BookInsert book2_data]\<rparr>"
    by (rule srv_start [of _ "[BorrowInsert borrow1_data]" "post ''/add_book'' book2_form",
          simplified]) code_simp
  then have "srv_reachable \<lparr>srv_db = \<lparr>book_table = [book1, book2], borrow_table = []\<rparr>,
      srv_pending = [BorrowInsert borrow1_data]\<rparr>"
    by (rule srv_commit [of _ "[BorrowInsert borrow1_data]" _ "[]", simplified]) code_simp
  then show ?thesis by (simp add: interleaved_def)
qed

theorem srv_reachable_app_inv_witness:
  "srv_reachable interleaved \<and> app_inv (srv_db interleaved)"
  using interleaved_reachable srv_reachable_app_inv [OF interleaved_reachable] by simp

theorem srv_pending_borrow_refs_witness:
  "srv_reachable interleaved \<and> BorrowInsert borrow1_data \<in> set (srv_pending interleaved)
   \<and> bb_book borrow1_data \<in> set (map book_id (book_table (srv_db interleaved)))"
proof -
  have m: "BorrowInsert borrow1_data \<in> set (srv_pending interleaved)"
    by (simp add: interleaved_def)
  show ?thesis using interleaved_reachable m srv_pending_borrow_refs [OF interleaved_reachable m]
    by simp
qed

theorem srv_reachable_serializable_witness:
  "srv_reachable interleaved \<and> reachable (srv_db interleaved)"
  using interleaved_reachable srv_reachable_serializable [OF interleaved_reachable] by simp


theorem suggestions_page_witness:
  "req_path (post ''/book_suggestions'' (suggest_form ''S2'')) = ''/book_suggestions''
   \<and> app_handle (post ''/book_suggestions'' (suggest_form ''S2'')) db2
     = (Render ''book_suggestions.html'' [] [] [book1], db2)"
proof -
  have f: "BookSuggestionForm True (suggest_form ''S2'') = Inr (suggestion ''S2'')" by code_simp
  have g: "suggestions_for (suggestion ''S2'') db2 = [book1]" by code_simp
  show ?thesis
    using suggestions_page [of "post ''/book_suggestions'' (suggest_form ''S2'')" db2] f g
    by (simp add: post_def)
qed

end
